theory Spec2Isabelle
  imports Complex_Main
begin

section \<open>Titles and the dedup key (\<open>normalizar_titulo\<close>, scraper.py)\<close>

text \<open>
  A Python \<open>str\<close> is a sequence of code points. Titles are modelled as \<^typ>\<open>string\<close>
  where each \<^typ>\<open>char\<close> stands for the code point of the same number, so the model
  covers the code points U+0000 to U+00FF (ASCII and Latin-1, which hold every character of
  the replacement table of \<open>normalizar_titulo\<close>). On this range \<open>str.lower\<close>,
  \<open>str.strip\<close> and the regular expression class \<open>\s\<close> are as defined below.
\<close>

definition is_space :: "char \<Rightarrow> bool" where
  \<comment> \<open>\<open>str.isspace\<close> and \<open>\s\<close>: TAB..CR, FS..US, SPACE, NEL (U+0085), NBSP (U+00A0)\<close>
  "is_space c = ((of_char c :: nat) \<in> set [9, 10, 11, 12, 13, 28, 29, 30, 31, 32, 133, 160])"

definition is_az :: "char \<Rightarrow> bool" where
  \<comment> \<open>the class \<open>a-z\<close>\<close>
  "is_az c = (97 \<le> (of_char c :: nat) \<and> (of_char c :: nat) \<le> 122)"

definition is_digit :: "char \<Rightarrow> bool" where
  \<comment> \<open>the class \<open>0-9\<close>\<close>
  "is_digit c = (48 \<le> (of_char c :: nat) \<and> (of_char c :: nat) \<le> 57)"

definition lower_char :: "char \<Rightarrow> char" where
  \<comment> \<open>\<open>str.lower\<close> on one code point below U+0100: A..Z, U+00C0..U+00D6 and
      U+00D8..U+00DE move up by 32, every other code point stays\<close>
  "lower_char c =
     (let n = (of_char c :: nat)
      in if (65 \<le> n \<and> n \<le> 90) \<or> (192 \<le> n \<and> n \<le> 214) \<or> (216 \<le> n \<and> n \<le> 222)
         then char_of (n + 32) else c)"

definition lower :: "string \<Rightarrow> string" where
  "lower s = map lower_char s"

definition lstrip :: "string \<Rightarrow> string" where
  "lstrip s = dropWhile is_space s"

definition rstrip :: "string \<Rightarrow> string" where
  "rstrip s = rev (dropWhile is_space (rev s))"

definition strip :: "string \<Rightarrow> string" where
  \<comment> \<open>\<open>str.strip()\<close>: leading and trailing whitespace removed\<close>
  "strip s = rstrip (lstrip s)"

definition replace_chr :: "char \<Rightarrow> char \<Rightarrow> string \<Rightarrow> string" where
  \<comment> \<open>\<open>s.replace(old, new)\<close> where \<open>old\<close> and \<open>new\<close> are one character each\<close>
  "replace_chr old new s = map (\<lambda>c. if c = old then new else c) s"

definition reemplazos :: "(char \<times> char) list" where
  \<comment> \<open>the dict \<open>reemplazos\<close> in insertion order: a-acute, e-acute, i-acute, o-acute,
      u-acute, n-tilde, a-grave, e-grave, i-grave, o-grave, u-grave, u-diaeresis\<close>
  "reemplazos =
     [(CHR 0xE1, CHR ''a''), (CHR 0xE9, CHR ''e''), (CHR 0xED, CHR ''i''),
      (CHR 0xF3, CHR ''o''), (CHR 0xFA, CHR ''u''), (CHR 0xF1, CHR ''n''),
      (CHR 0xE0, CHR ''a''), (CHR 0xE8, CHR ''e''), (CHR 0xEC, CHR ''i''),
      (CHR 0xF2, CHR ''o''), (CHR 0xF9, CHR ''u''), (CHR 0xFC, CHR ''u'')]"

definition sub_no_alnum :: "string \<Rightarrow> string" where
  \<comment> \<open>\<open>re.sub(r'[^a-z0-9\s]', '', s)\<close>\<close>
  "sub_no_alnum s = filter (\<lambda>c. is_az c \<or> is_digit c \<or> is_space c) s"

function sub_spaces :: "string \<Rightarrow> string" where
  \<comment> \<open>\<open>re.sub(r'\s+', ' ', s)\<close>: every maximal run of whitespace becomes one space\<close>
  "sub_spaces [] = []"
| "sub_spaces (c # cs) =
     (if is_space c then CHR '' '' # sub_spaces (dropWhile is_space cs)
      else c # sub_spaces cs)"
  by pat_completeness auto
termination
  by (relation "measure length") (auto simp: less_Suc_eq_le length_dropWhile_le)

definition normalizar_titulo :: "string \<Rightarrow> string" where
  "normalizar_titulo titulo =
     strip (sub_spaces (sub_no_alnum
       (foldl (\<lambda>t (acento, letra). replace_chr acento letra t) (strip (lower titulo)) reemplazos)))"


section \<open>The lookup client (\<open>search_filmaffinity\<close> and its helpers, scraper.py)\<close>

text \<open>
  A rating is a Python \<open>float\<close>; the model keeps the real number it denotes, which is
  exact for the truth test and the comparison with the threshold (the not-a-number and
  infinite floats are left out). A parsed page is modelled by what the selectors of the
  source find in it.
\<close>

datatype rating_elem =
    No_element          \<comment> \<open>\<open>soup.select_one(selector)\<close> is \<open>None\<close>\<close>
  | Not_a_number        \<comment> \<open>an element whose text \<open>float\<close> rejects (\<open>ValueError\<close>)\<close>
  | Number real         \<comment> \<open>an element whose text, comma replaced by period, is this float\<close>

record page =
  is_detail :: bool
    \<comment> \<open>the response is itself the page of one film (the search was redirected to its only
        match); \<open>search_filmaffinity\<close> never looks at \<open>response.url\<close>\<close>
  card_href :: "string option option"
    \<comment> \<open>\<open>None\<close>: no \<open>.se-it, .movie-card, [data-movie-id]\<close> element; \<open>Some None\<close>: a card
        without a link to \<open>/film\<close>; \<open>Some (Some h)\<close>: the \<open>href\<close> of the card's first such link\<close>
  rating_elems :: "rating_elem list"
    \<comment> \<open>one entry for each selector of \<open>rating_selectors\<close>, in that order\<close>
  film_href :: "string option"
    \<comment> \<open>the \<open>href\<close> of the first \<open>a[href*='/es/film']\<close> of the page\<close>
  title_elem :: "string option"
  genre_elem :: "string option"
  platform_alts :: "string list"
  jw_texts :: "string list"

datatype http_outcome =
    Raises              \<comment> \<open>\<open>filmaffinity_scraper.get\<close> raises (connection error, timeout)\<close>
  | Response nat page   \<comment> \<open>status code and the parsed body\<close>

datatype event =
    Sleep_uniform int int   \<comment> \<open>\<open>time.sleep(random.uniform(a, b))\<close>\<close>
  | Sleep int               \<comment> \<open>\<open>time.sleep(n)\<close>, seconds\<close>
  | Get string              \<comment> \<open>\<open>filmaffinity_scraper.get(url, timeout=15)\<close>\<close>

record world =
  gets :: nat               \<comment> \<open>number of GET requests made so far\<close>
  log :: "event list"       \<comment> \<open>sleeps and requests, oldest first\<close>

type_synonym network = "nat \<Rightarrow> http_outcome"
  \<comment> \<open>the outcome of the n-th GET request (counted from 0)\<close>

record movie_info =
  info_url :: string
  info_title :: string
  info_rating :: "real option"
  info_genre :: string
  info_platforms :: "string list"

definition FILMAFFINITY_SEARCH_URL :: string where
  "FILMAFFINITY_SEARCH_URL = ''https://www.filmaffinity.com/es/search.php?stext=''"

definition MIN_RATING :: real where
  "MIN_RATING = 7"

definition MAX_PELICULAS_POR_EJECUCION :: nat where
  "MAX_PELICULAS_POR_EJECUCION = 20"

definition hex_digit :: "nat \<Rightarrow> char" where
  "hex_digit n = ''0123456789ABCDEF'' ! (n mod 16)"

definition percent_byte :: "nat \<Rightarrow> string" where
  "percent_byte b = [CHR ''%'', hex_digit (b div 16), hex_digit b]"

definition utf8_bytes :: "char \<Rightarrow> nat list" where
  \<comment> \<open>UTF-8 of a code point below U+0100\<close>
  "utf8_bytes c =
     (let n = (of_char c :: nat) in if n < 128 then [n] else [192 + n div 64, 128 + n mod 64])"

definition quote_plus_char :: "char \<Rightarrow> string" where
  "quote_plus_char c =
     (let n = (of_char c :: nat)
      in if (65 \<le> n \<and> n \<le> 90) \<or> (97 \<le> n \<and> n \<le> 122) \<or> (48 \<le> n \<and> n \<le> 57)
            \<or> c \<in> set ''_.-~'' then [c]
         else if c = CHR '' '' then ''+''
         else concat (map percent_byte (utf8_bytes c)))"

definition quote_plus :: "string \<Rightarrow> string" where
  \<comment> \<open>\<open>urllib.parse.quote_plus\<close>\<close>
  "quote_plus s = concat (map quote_plus_char s)"

definition sleep_uniform :: "int \<Rightarrow> int \<Rightarrow> world \<Rightarrow> world" where
  "sleep_uniform a b w = w\<lparr>log := log w @ [Sleep_uniform a b]\<rparr>"

definition sleep :: "int \<Rightarrow> world \<Rightarrow> world" where
  "sleep n w = w\<lparr>log := log w @ [Sleep n]\<rparr>"

definition http_get :: "network \<Rightarrow> string \<Rightarrow> world \<Rightarrow> http_outcome \<times> world" where
  "http_get net url w = (net (gets w), w\<lparr>gets := gets w + 1, log := log w @ [Get url]\<rparr>)"

definition raise_for_status :: "nat \<Rightarrow> bool" where
  \<comment> \<open>True when \<open>response.raise_for_status()\<close> raises: a 4xx or 5xx status\<close>
  "raise_for_status status = (400 \<le> status \<and> status < 600)"

definition truthy :: "real option \<Rightarrow> bool" where
  \<comment> \<open>the truth value of \<open>rating\<close>: neither \<open>None\<close> nor \<open>0.0\<close>\<close>
  "truthy r = (case r of None \<Rightarrow> False | Some x \<Rightarrow> x \<noteq> 0)"

fun extract_rating_from :: "rating_elem list \<Rightarrow> real option" where
  "extract_rating_from [] = None"
| "extract_rating_from (No_element # es) = extract_rating_from es"
| "extract_rating_from (Not_a_number # es) = extract_rating_from es"
| "extract_rating_from (Number r # es) = Some r"

definition extract_rating :: "page \<Rightarrow> real option" where
  "extract_rating soup = extract_rating_from (rating_elems soup)"

definition extract_movie_info :: "page \<Rightarrow> string \<Rightarrow> movie_info option" where
  "extract_movie_info soup url =
     (let platforms = filter (\<lambda>alt. alt \<noteq> []) (platform_alts soup);
          platforms = foldl (\<lambda>ps name. if name \<noteq> [] \<and> name \<notin> set ps then ps @ [name] else ps)
                        platforms (jw_texts soup);
          info = \<lparr>info_url = url,
                  info_title = (case title_elem soup of Some t \<Rightarrow> t | None \<Rightarrow> ''Desconocido''),
                  info_rating = extract_rating soup,
                  info_genre = (case genre_elem soup of Some g \<Rightarrow> g | None \<Rightarrow> ''No especificado''),
                  info_platforms =
                    (if platforms \<noteq> [] then platforms else [''No disponible en streaming''])\<rparr>
      in if truthy (info_rating info) then Some info else None)"

definition get_filmaffinity_details ::
  "network \<Rightarrow> string \<Rightarrow> world \<Rightarrow> movie_info option \<times> world" where
  "get_filmaffinity_details net url w0 =
     (let w1 = sleep_uniform 2 4 w0;
          (r1, w2) = http_get net url w1
      in case r1 of
           Raises \<Rightarrow> (None, w2)
         | Response status1 soup1 \<Rightarrow>
             if status1 = 429 then
               (let w3 = sleep 30 w2;
                    (r2, w4) = http_get net url w3
                in case r2 of
                     Raises \<Rightarrow> (None, w4)
                   | Response status2 soup2 \<Rightarrow>
                       if raise_for_status status2 then (None, w4)
                       else (extract_movie_info soup2 url, w4))
             else if raise_for_status status1 then (None, w2)
             else (extract_movie_info soup1 url, w2))"

definition absolute_url :: "string \<Rightarrow> string" where
  \<comment> \<open>\<open>if movie_url and not movie_url.startswith("http"): movie_url = host + movie_url\<close>\<close>
  "absolute_url movie_url =
     (if movie_url \<noteq> [] \<and> take 4 movie_url \<noteq> ''http''
      then ''https://www.filmaffinity.com'' @ movie_url else movie_url)"

definition resolve_first_link ::
  "network \<Rightarrow> page \<Rightarrow> world \<Rightarrow> movie_info option \<times> world" where
  \<comment> \<open>lines 274 to 284: the first film link of the page, else \<open>None\<close>\<close>
  "resolve_first_link net soup w =
     (case film_href soup of
        Some href \<Rightarrow>
          (let movie_url = absolute_url href
           in if movie_url \<noteq> [] then get_filmaffinity_details net movie_url w else (None, w))
      | None \<Rightarrow> (None, w))"

definition resolve_in_place ::
  "network \<Rightarrow> string \<Rightarrow> page \<Rightarrow> world \<Rightarrow> movie_info option \<times> world" where
  \<comment> \<open>lines 269 to 272, then the rest\<close>
  "resolve_in_place net search_url soup w =
     (if truthy (extract_rating soup) then (extract_movie_info soup search_url, w)
      else resolve_first_link net soup w)"

definition resolve :: "network \<Rightarrow> string \<Rightarrow> page \<Rightarrow> world \<Rightarrow> movie_info option \<times> world" where
  \<comment> \<open>lines 255 to 284 of \<open>search_filmaffinity\<close>: what is done with a page whose status
      passed \<open>raise_for_status\<close>\<close>
  "resolve net search_url soup w =
     (case card_href soup of
        Some (Some href) \<Rightarrow>
          (let movie_url = absolute_url href
           in if movie_url \<noteq> [] then get_filmaffinity_details net movie_url w
              else resolve_in_place net search_url soup w)
      | _ \<Rightarrow> resolve_in_place net search_url soup w)"

fun search_attempts ::
  "network \<Rightarrow> string \<Rightarrow> int \<Rightarrow> nat list \<Rightarrow> world \<Rightarrow> movie_info option \<times> world" where
  \<comment> \<open>the body of \<open>for attempt in range(retries)\<close>, over the attempts still to run\<close>
  "search_attempts net search_url retries [] w = (None, w)"
| "search_attempts net search_url retries (attempt # rest) w0 =
     (let w1 = (if attempt = 0 then sleep_uniform 3 6 w0 else sleep_uniform 10 20 w0);
          (r, w2) = http_get net search_url w1
      in case r of
           Raises \<Rightarrow> search_attempts net search_url retries rest w2
         | Response status soup \<Rightarrow>
             if status = 429 then
               (if int attempt < retries - 1
                then search_attempts net search_url retries rest (sleep ((int attempt + 1) * 30) w2)
                else (None, w2))
             else if status = 403 then
               (if int attempt < retries - 1
                then search_attempts net search_url retries rest (sleep ((int attempt + 1) * 15) w2)
                else (None, w2))
             else if raise_for_status status then search_attempts net search_url retries rest w2
             else resolve net search_url soup w2)"

definition search_filmaffinity ::
  "network \<Rightarrow> string \<Rightarrow> int \<Rightarrow> world \<Rightarrow> movie_info option \<times> world" where
  "search_filmaffinity net title retries w =
     search_attempts net (FILMAFFINITY_SEARCH_URL @ quote_plus title) retries [0..<nat retries] w"


section \<open>The history store (\<open>cargar_historial\<close>, \<open>guardar_historial\<close>, scraper.py)\<close>

datatype py_value = PyNone | PyInt int | PyFloat real

record registro =
  titulo :: string
  nota :: py_value
  fecha :: string
  notificado :: bool

type_synonym historial = "string \<rightharpoonup> registro"
  \<comment> \<open>the dict \<open>historial["peliculas"]\<close>: dedup key to record\<close>

text \<open>
  The file \<open>historial.json\<close> is modelled by what \<open>os.path.exists\<close>, \<open>open\<close> and
  \<open>json.load\<close> make of it: it is absent, or it holds the document that \<open>json.dump\<close> wrote
  for a history (which \<open>json.load\<close> reads back), or it is empty or holds only the beginning
  of a document, cut between two characters (\<open>open(..., 'w')\<close> truncates the file before
  \<open>json.dump\<close> writes into it), or it holds some other text in UTF-8 that is not JSON, or its
  bytes are not UTF-8 (the file is opened with \<open>encoding='utf-8'\<close>, and \<open>json.dump\<close> with
  \<open>ensure_ascii=False\<close> writes characters of several bytes, so that a document can be cut
  inside one), or it holds JSON nested deeper than the recursion limit. A well-formed document
  of another shape than \<open>{"peliculas": {...}}\<close> is outside the model.
\<close>

datatype 'd archivo =
    Ausente
  | Documento 'd
  | Incompleto          \<comment> \<open>\<open>json.load\<close> raises \<open>JSONDecodeError\<close>\<close>
  | Corrupto            \<comment> \<open>\<open>json.load\<close> raises \<open>JSONDecodeError\<close>\<close>
  | Indecodificable     \<comment> \<open>\<open>json.load\<close> raises \<open>UnicodeDecodeError\<close>\<close>
  | Anidado             \<comment> \<open>\<open>json.load\<close> raises \<open>RecursionError\<close>\<close>

datatype exception = JSONDecodeError | OSError | UnicodeDecodeError | RecursionError

datatype mensaje =
    Error_cargando_historial exception
      \<comment> \<open>the printed line \<open>[!] Error cargando historial: {e}\<close> for the exception caught\<close>

datatype io_fault =
    No_fault
  | Open_fails      \<comment> \<open>\<open>open\<close> raises \<open>IOError\<close>: the file is left as it was\<close>
  | Write_fails     \<comment> \<open>\<open>json.dump\<close> or the closing of the file raises \<open>IOError\<close>\<close>
  | Write_fails_in_char
      \<comment> \<open>the same, the part written ending inside a character of several bytes\<close>

definition historial_vacio :: historial where
  \<comment> \<open>\<open>{"peliculas": {}}\<close>\<close>
  "historial_vacio = Map.empty"

definition path_exists :: "'d archivo \<Rightarrow> bool" where
  \<comment> \<open>\<open>os.path.exists\<close> of the file\<close>
  "path_exists disk = (case disk of Ausente \<Rightarrow> False | _ \<Rightarrow> True)"

definition json_load :: "'d archivo \<Rightarrow> exception + 'd" where
  \<comment> \<open>\<open>json.load(f)\<close> on an existing file that could be opened\<close>
  "json_load disk =
     (case disk of
        Documento d \<Rightarrow> Inr d
      | Ausente \<Rightarrow> Inl OSError
      | Incompleto \<Rightarrow> Inl JSONDecodeError
      | Corrupto \<Rightarrow> Inl JSONDecodeError
      | Indecodificable \<Rightarrow> Inl UnicodeDecodeError
      | Anidado \<Rightarrow> Inl RecursionError)"

definition cargar_historial ::
  "bool \<Rightarrow> historial archivo \<Rightarrow> (exception + historial) \<times> mensaje list" where
  \<comment> \<open>the result (\<open>Inl\<close>: the exception that leaves the function) and the lines printed;
      \<open>read_fault\<close>: \<open>open\<close> raises \<open>IOError\<close>. The handler is
      \<open>except (json.JSONDecodeError, IOError)\<close>, and \<open>IOError\<close> is \<open>OSError\<close>\<close>
  "cargar_historial read_fault disk =
     (if path_exists disk then
        (case (if read_fault then Inl OSError else json_load disk) of
           Inr h \<Rightarrow> (Inr h, [])
         | Inl e \<Rightarrow>
             if e = JSONDecodeError \<or> e = OSError
             then (Inr historial_vacio, [Error_cargando_historial e])
             else (Inl e, []))
      else (Inr historial_vacio, []))"

definition guardar_historial :: "io_fault \<Rightarrow> historial \<Rightarrow> historial archivo \<Rightarrow> bool \<times> historial archivo" where
  "guardar_historial fault h disk =
     (case fault of
        No_fault \<Rightarrow> (True, Documento h)
      | Open_fails \<Rightarrow> (False, disk)
      | Write_fails \<Rightarrow> (False, Incompleto)
      | Write_fails_in_char \<Rightarrow> (False, Indecodificable))"

definition guardar_historial_states :: "historial \<Rightarrow> historial archivo \<Rightarrow> historial archivo list" where
  \<comment> \<open>the states of the file during a call without fault: before \<open>open\<close>, from \<open>open\<close>
      (which truncates) until \<open>json.dump\<close> and the closing are done, and after\<close>
  "guardar_historial_states h disk = [disk, Incompleto, Documento h]"

definition agregar_al_historial ::
  "historial \<Rightarrow> string \<Rightarrow> py_value \<Rightarrow> bool \<Rightarrow> string \<Rightarrow> historial" where
  \<comment> \<open>the last argument is \<open>datetime.now().strftime("%Y-%m-%d")\<close>\<close>
  "agregar_al_historial h titulo_limpio nota_v notificado_v hoy =
     h(normalizar_titulo titulo_limpio \<mapsto>
         \<lparr>titulo = titulo_limpio, nota = nota_v, fecha = hoy, notificado = notificado_v\<rparr>)"

definition ya_analizada :: "historial \<Rightarrow> string \<Rightarrow> bool" where
  "ya_analizada h titulo_limpio = (h (normalizar_titulo titulo_limpio) \<noteq> None)"

subsection \<open>The store of movie_notifier.py\<close>

definition load_processed :: "string list archivo \<Rightarrow> exception + string set" where
  \<comment> \<open>no \<open>try\<close>: what \<open>json.load\<close> raises leaves the function\<close>
  "load_processed disk =
     (if path_exists disk then
        (case json_load disk of Inr urls \<Rightarrow> Inr (set urls) | Inl e \<Rightarrow> Inl e)
      else Inr {})"


section \<open>The pipeline (\<open>main\<close>, scraper.py)\<close>

record title_info =
  original_title :: string
  clean_title :: string
  url :: string

record entorno =
  internet :: network
  fecha_de :: "nat \<Rightarrow> string"
    \<comment> \<open>the date that \<open>datetime.now()\<close> gives when the n-th title of the run is recorded\<close>
  write_fault :: "nat \<Rightarrow> io_fault"
    \<comment> \<open>what happens to the n-th call of \<open>guardar_historial\<close> of the run\<close>
  read_fault :: bool
  telegram :: bool
    \<comment> \<open>\<open>TELEGRAM_BOT_TOKEN\<close> and \<open>TELEGRAM_CHAT_ID\<close> are both set\<close>

record estado =
  historial :: historial
  good_movies :: "(string \<times> movie_info) list"
  nuevas_analizadas :: nat
  mundo :: world
  disco :: "historial archivo"

definition paso :: "entorno \<Rightarrow> title_info \<Rightarrow> estado \<Rightarrow> estado" where
  \<comment> \<open>the body of the loop \<open>for i, title_info in enumerate(titulos_a_procesar, 1)\<close>\<close>
  "paso e t s =
     (let (found, w) = search_filmaffinity (internet e) (clean_title t) 3 (mundo s);
          hoy = fecha_de e (nuevas_analizadas s);
          no_encontrada =
            s\<lparr>historial := agregar_al_historial (historial s) (clean_title t) (PyInt 0) False hoy,
              nuevas_analizadas := nuevas_analizadas s + 1\<rparr>;
          s1 = (case found of
                  None \<Rightarrow> no_encontrada
                | Some info \<Rightarrow>
                    (case info_rating info of
                       None \<Rightarrow> no_encontrada
                     | Some rating \<Rightarrow>
                         if rating = 0 then no_encontrada
                         else
                           (let notif = (rating \<ge> MIN_RATING)
                            in s\<lparr>historial := agregar_al_historial (historial s) (clean_title t)
                                                (PyFloat rating) notif hoy,
                                 nuevas_analizadas := nuevas_analizadas s + 1,
                                 good_movies := (if notif
                                                 then good_movies s @ [(original_title t, info)]
                                                 else good_movies s)\<rparr>)));
          (ok, d) = guardar_historial (write_fault e (nuevas_analizadas s)) (historial s1) (disco s)
      in s1\<lparr>mundo := w, disco := d\<rparr>)"

fun procesar :: "entorno \<Rightarrow> title_info list \<Rightarrow> estado \<Rightarrow> estado" where
  "procesar e [] s = s"
| "procesar e (t # ts) s = procesar e ts (paso e t s)"

record informe =
  final :: estado
  saltadas :: nat
  enviadas :: "(string \<times> movie_info) list"
    \<comment> \<open>the movies for which \<open>send_telegram_message\<close> is called\<close>

definition main ::
  "entorno \<Rightarrow> title_info list \<Rightarrow> world \<Rightarrow> historial archivo \<Rightarrow> exception + informe" where
  \<comment> \<open>\<open>titles\<close> is what \<open>get_mejortorrent_titles()\<close> returns\<close>
  "main e titles w disk =
     (case fst (cargar_historial (read_fault e) disk) of
        Inl x \<Rightarrow> Inl x
      | Inr h \<Rightarrow>
         (let s0 = \<lparr>historial = h, good_movies = [], nuevas_analizadas = 0, mundo = w, disco = disk\<rparr>
          in if titles = [] then Inr \<lparr>final = s0, saltadas = 0, enviadas = []\<rparr>
             else
               (let titulos_nuevos = filter (\<lambda>t. \<not> ya_analizada h (clean_title t)) titles;
                    n_saltadas = length (filter (\<lambda>t. ya_analizada h (clean_title t)) titles);
                    titulos_a_procesar = take MAX_PELICULAS_POR_EJECUCION titulos_nuevos;
                    s = procesar e titulos_a_procesar s0
                in Inr \<lparr>final = s, saltadas = n_saltadas,
                        enviadas = (if telegram e then good_movies s else [])\<rparr>)))"


section \<open>The resolution order as the specification words it\<close>

definition resolve_spec ::
  "network \<Rightarrow> string \<Rightarrow> page \<Rightarrow> world \<Rightarrow> movie_info option \<times> world" where
  \<comment> \<open>the four steps of the specification, in its order: a detail page is parsed; else the
      first candidate of the listing is followed; else an embedded rating makes the page be
      parsed in place; else not found\<close>
  "resolve_spec net search_url soup w =
     (if is_detail soup then (extract_movie_info soup search_url, w)
      else case card_href soup of
             Some (Some href) \<Rightarrow> get_filmaffinity_details net (absolute_url href) w
           | _ \<Rightarrow>
               if extract_rating soup \<noteq> None then (extract_movie_info soup search_url, w)
               else (None, w))"

definition rate_limited_events :: "string \<Rightarrow> nat \<Rightarrow> nat \<Rightarrow> event list" where
  \<comment> \<open>attempt \<open>i\<close> (from 0) of \<open>n\<close> when the answer is 429: the courtesy delay, the request,
      and, unless it was the last attempt, a wait of \<open>(i + 1) * 30\<close> seconds\<close>
  "rate_limited_events search_url n i =
     [if i = 0 then Sleep_uniform 3 6 else Sleep_uniform 10 20, Get search_url]
     @ (if i + 1 < n then [Sleep ((int i + 1) * 30)] else [])"

definition rate_limited_log :: "string \<Rightarrow> nat \<Rightarrow> event list" where
  "rate_limited_log search_url n = concat (map (rate_limited_events search_url n) [0..<n])"


fun sleeps :: "event list \<Rightarrow> int list" where
  \<comment> \<open>the fixed waits of a log, in order\<close>
  "sleeps [] = []"
| "sleeps (Sleep n # es) = n # sleeps es"
| "sleeps (Sleep_uniform a b # es) = sleeps es"
| "sleeps (Get u # es) = sleeps es"

fun requests :: "event list \<Rightarrow> string list" where
  \<comment> \<open>the requests of a log, in order\<close>
  "requests [] = []"
| "requests (Get u # es) = u # requests es"
| "requests (Sleep n # es) = requests es"
| "requests (Sleep_uniform a b # es) = requests es"


section \<open>Concrete inputs\<close>

definition empty_page :: page where
  "empty_page = \<lparr>is_detail = False, card_href = None, rating_elems = [], film_href = None,
                  title_elem = None, genre_elem = None, platform_alts = [], jw_texts = []\<rparr>"

definition net_down :: network where
  \<comment> \<open>every request raises\<close>
  "net_down n = Raises"

definition net_429 :: network where
  \<comment> \<open>every request is answered 429\<close>
  "net_429 n = Response 429 empty_page"

definition world0 :: world where
  "world0 = \<lparr>gets = 0, log = []\<rparr>"

definition fecha0 :: "nat \<Rightarrow> string" where
  "fecha0 n = ''2024-01-01''"

definition no_faults :: "nat \<Rightarrow> io_fault" where
  "no_faults n = No_fault"

definition entorno_down :: entorno where
  "entorno_down = \<lparr>internet = net_down, fecha_de = fecha0, write_fault = no_faults,
                     read_fault = False, telegram = True\<rparr>"

definition titulo_de :: "string \<Rightarrow> title_info" where
  "titulo_de t = \<lparr>original_title = t, clean_title = t, url = ''/pelicula/1/'' @ t\<rparr>"

definition estado0 :: estado where
  "estado0 = \<lparr>historial = historial_vacio, good_movies = [], nuevas_analizadas = 0,
               mundo = world0, disco = Ausente\<rparr>"


definition page_rating7 :: page where
  \<comment> \<open>a page that carries the rating 7.0 and no card\<close>
  "page_rating7 = empty_page\<lparr>rating_elems := [No_element, Number 7], title_elem := Some ''Dune''\<rparr>"

definition net_rating7 :: network where
  "net_rating7 n = Response 200 page_rating7"

definition entorno_rating7 :: entorno where
  "entorno_rating7 = entorno_down\<lparr>internet := net_rating7\<rparr>"

definition listing_page :: page where
  \<comment> \<open>a results listing whose first card links to a film\<close>
  "listing_page = empty_page\<lparr>card_href := Some (Some ''/es/film123.html'')\<rparr>"

definition page_rating0 :: page where
  \<comment> \<open>the page of a film whose rating reads 0.0\<close>
  "page_rating0 = empty_page\<lparr>is_detail := True, rating_elems := [Number 0], title_elem := Some ''Dune''\<rparr>"

definition net_rating0 :: network where
  "net_rating0 n = (if n = 0 then Response 200 listing_page else Response 200 page_rating0)"

definition entorno_rating0 :: entorno where
  "entorno_rating0 = entorno_down\<lparr>internet := net_rating0\<rparr>"

definition detail_with_card :: page where
  \<comment> \<open>the page of one film, rated 7.5, that also shows a card linking to another film\<close>
  "detail_with_card = empty_page\<lparr>is_detail := True, card_href := Some (Some ''/es/film123.html''),
                                  rating_elems := [Number 7.5], title_elem := Some ''Dune''\<rparr>"

definition links_only :: page where
  \<comment> \<open>a listing without card and without rating that holds a link to a film\<close>
  "links_only = empty_page\<lparr>film_href := Some ''/es/film456.html''\<rparr>"

definition historial_dune :: historial where
  "historial_dune = agregar_al_historial historial_vacio ''Dune'' (PyFloat 7.8) True ''2024-01-01''"

definition historial_dune_alien :: historial where
  "historial_dune_alien = agregar_al_historial historial_dune ''Alien'' (PyFloat 8) True ''2024-01-02''"


definition veinte :: "title_info list" where
  "veinte = map titulo_de
     [''Pelicula 01'', ''Pelicula 02'', ''Pelicula 03'', ''Pelicula 04'', ''Pelicula 05'',
      ''Pelicula 06'', ''Pelicula 07'', ''Pelicula 08'', ''Pelicula 09'', ''Pelicula 10'',
      ''Pelicula 11'', ''Pelicula 12'', ''Pelicula 13'', ''Pelicula 14'', ''Pelicula 15'',
      ''Pelicula 16'', ''Pelicula 17'', ''Pelicula 18'', ''Pelicula 19'', ''Pelicula 20'']"

definition veintiuna :: "title_info list" where
  \<comment> \<open>twenty-one titles with twenty-one different keys\<close>
  "veintiuna = veinte @ [titulo_de ''Pelicula 21'']"

definition primera :: "exception + informe" where
  \<comment> \<open>a first run on an absent history file, the network being down\<close>
  "primera = main entorno_down veintiuna world0 Ausente"

definition segunda :: "exception + informe" where
  \<comment> \<open>a second run on the same titles, from the world and the file that the first run left\<close>
  "segunda =
     (case primera of
        Inl x \<Rightarrow> Inl x
      | Inr r \<Rightarrow> main entorno_down veintiuna (mundo (final r)) (disco (final r)))"

definition resumen :: "exception + informe \<Rightarrow> (nat \<times> nat \<times> nat) option" where
  \<comment> \<open>of a run: the requests made so far, the titles looked up in the run, the titles skipped\<close>
  "resumen x =
     (case x of
        Inl y \<Rightarrow> None
      | Inr r \<Rightarrow> Some (gets (mundo (final r)), nuevas_analizadas (final r), saltadas r))"


definition zero_with_link :: page where
  \<comment> \<open>the page of a film whose rating reads 0.0, which holds a link to another film\<close>
  "zero_with_link = empty_page\<lparr>is_detail := True, rating_elems := [Number 0],
                               film_href := Some ''/es/film456.html'', title_elem := Some ''Dune''\<rparr>"

definition net_zero_direct :: network where
  \<comment> \<open>the search is answered with the zero-rated page itself, any later request with a page
      rated 7.0\<close>
  "net_zero_direct n = (if n = 0 then Response 200 zero_with_link else Response 200 page_rating7)"

definition entorno_zero_direct :: entorno where
  "entorno_zero_direct = entorno_down\<lparr>internet := net_zero_direct\<rparr>"


section \<open>Auxiliary definitions\<close>

text \<open>
  A page whose rating reads 0.0, with the rating taken away; and a network answer with this
  done to its page.
\<close>

definition forget_zero_page :: "page \<Rightarrow> page" where
  "forget_zero_page soup =
     (case extract_rating soup of
        None \<Rightarrow> soup
      | Some r \<Rightarrow> if r = 0 then soup\<lparr>rating_elems := []\<rparr> else soup)"

definition forget_zero :: "http_outcome \<Rightarrow> http_outcome" where
  "forget_zero r =
     (case r of Raises \<Rightarrow> Raises | Response status soup \<Rightarrow> Response status (forget_zero_page soup))"

text \<open>
  The history file is a document in whose history the title counts as analysed.
\<close>

definition recordado :: "string \<Rightarrow> historial archivo \<Rightarrow> bool" where
  "recordado titulo_limpio disk =
     (case disk of Documento h \<Rightarrow> ya_analizada h titulo_limpio | _ \<Rightarrow> False)"


text \<open>
  What \<open>normalizar_titulo\<close> does to one character: lower case, then the replacement table.
\<close>

definition fold_char :: "char \<Rightarrow> char" where
  "fold_char c = foldl (\<lambda>d (acento, letra). if d = acento then letra else d) c reemplazos"

definition canon_char :: "char \<Rightarrow> char" where
  "canon_char c = fold_char (lower_char c)"

definition kept :: "char \<Rightarrow> bool" where
  "kept c = (is_az c \<or> is_digit c)"

text \<open>
  One pass over a string that yields the words separated by single spaces: \<open>w\<close> says that a
  word has been put out already, \<open>p\<close> that whitespace was seen since.
\<close>

fun nf :: "bool \<Rightarrow> bool \<Rightarrow> string \<Rightarrow> string" where
  "nf w p [] = []"
| "nf w p (c # cs) =
     (if is_space c then nf w True cs
      else (if w \<and> p then [CHR '' '', c] else [c]) @ nf True False cs)"

fun squeeze :: "bool \<Rightarrow> bool \<Rightarrow> string \<Rightarrow> string" where
  "squeeze w p [] = []"
| "squeeze w p (c # cs) =
     (if is_space c then squeeze w True cs
      else if kept (canon_char c)
        then (if w \<and> p then [CHR '' '', canon_char c] else [canon_char c]) @ squeeze True False cs
        else squeeze w p cs)"

text \<open>
  Two titles are variants of each other when one is reached from the other by steps that
  change the case of a letter, exchange a letter of the replacement table and its plain
  letter, insert or delete a character that is neither whitespace nor (after lower-casing and
  replacement) one of a-z, 0-9, exchange one whitespace character for another, lengthen or
  shorten a run of whitespace, or add or remove whitespace at either end.
\<close>

inductive variante :: "string \<Rightarrow> string \<Rightarrow> bool" where
  v_refl: "variante s s"
| v_sym: "variante s t \<Longrightarrow> variante t s"
| v_trans: "variante s t \<Longrightarrow> variante t u \<Longrightarrow> variante s u"
| v_case: "lower_char c = lower_char d \<Longrightarrow> variante (xs @ c # ys) (xs @ d # ys)"
| v_accent: "(a, l) \<in> set reemplazos \<Longrightarrow> variante (xs @ a # ys) (xs @ l # ys)"
| v_punct: "\<not> is_space c \<Longrightarrow> \<not> kept (canon_char c) \<Longrightarrow> variante (xs @ c # ys) (xs @ ys)"
| v_space: "is_space c \<Longrightarrow> is_space d \<Longrightarrow> variante (xs @ c # ys) (xs @ d # ys)"
| v_run: "is_space c \<Longrightarrow> is_space d \<Longrightarrow> variante (xs @ c # d # ys) (xs @ c # ys)"
| v_lead: "is_space c \<Longrightarrow> variante (c # xs) xs"
| v_trail: "is_space c \<Longrightarrow> variante (xs @ [c]) xs"


section \<open>The dedup key: lemmas\<close>

lemma of_char_char_of_nat: "n < 256 \<Longrightarrow> (of_char (char_of n) :: nat) = n"
  by simp

lemma is_space_lower_char [simp]: "is_space (lower_char c) = is_space c"
proof -
  have "(of_char c :: nat) < 256" by simp
  then show ?thesis
    unfolding is_space_def lower_char_def Let_def
    by (auto simp: of_char_char_of_nat)
qed

lemma kept_not_space: "kept c \<Longrightarrow> \<not> is_space c"
  unfolding kept_def is_az_def is_digit_def is_space_def by auto

lemma lower_char_kept: "kept c \<Longrightarrow> lower_char c = c"
  unfolding kept_def is_az_def is_digit_def lower_char_def Let_def by auto

lemma fold_step_space:
  "\<forall>(a, l) \<in> set rs. \<not> is_space a \<and> \<not> is_space l \<Longrightarrow>
   is_space (foldl (\<lambda>d (acento, letra). if d = acento then letra else d) c rs) = is_space c"
  by (induction rs arbitrary: c) (auto split: prod.splits)

lemma reemplazos_not_space: "\<forall>(a, l) \<in> set reemplazos. \<not> is_space a \<and> \<not> is_space l"
  by code_simp

lemma is_space_fold_char [simp]: "is_space (fold_char c) = is_space c"
  unfolding fold_char_def using fold_step_space [OF reemplazos_not_space] by simp

lemma is_space_canon_char [simp]: "is_space (canon_char c) = is_space c"
  by (simp add: canon_char_def)

lemma fold_step_id:
  "\<forall>(a, l) \<in> set rs. c \<noteq> a \<Longrightarrow>
   foldl (\<lambda>d (acento, letra). if d = acento then letra else d) c rs = c"
  by (induction rs) (auto split: prod.splits)

lemma reemplazos_not_kept: "\<forall>(a, l) \<in> set reemplazos. \<not> kept a"
  by code_simp

lemma fold_char_kept: "kept c \<Longrightarrow> fold_char c = c"
  unfolding fold_char_def using reemplazos_not_kept
  by (intro fold_step_id) (auto split: prod.splits)

lemma canon_char_kept: "kept c \<Longrightarrow> canon_char c = c"
  by (simp add: canon_char_def lower_char_kept fold_char_kept)

lemma foldl_replace_chr:
  "foldl (\<lambda>t (acento, letra). replace_chr acento letra t) t rs =
   map (\<lambda>c. foldl (\<lambda>d (acento, letra). if d = acento then letra else d) c rs) t"
  by (induction rs arbitrary: t) (auto simp: replace_chr_def split: prod.splits)

lemma rstrip_Nil [simp]: "rstrip [] = []"
  by (simp add: rstrip_def)

lemma rstrip_Cons:
  "rstrip (c # cs) = (if is_space c \<and> rstrip cs = [] then [] else c # rstrip cs)"
  by (auto simp: rstrip_def dropWhile_append)

lemma rstrip_empty_iff: "rstrip cs = [] \<longleftrightarrow> (\<forall>c \<in> set cs. is_space c)"
  by (induction cs) (auto simp: rstrip_Cons)

lemma sub_spaces_space:
  "is_space c \<Longrightarrow> sub_spaces (c # cs) = CHR '' '' # sub_spaces (dropWhile is_space cs)"
  by simp

lemma is_space_SP [simp]: "is_space (CHR '' '')"
  by (simp add: is_space_def)

lemma nf_rstrip_sub_spaces:
  "nf True False xs = rstrip (sub_spaces xs) \<and>
   nf True True xs = rstrip (sub_spaces (CHR '' '' # xs))"
proof (induction xs)
  case Nil
  show ?case by (simp add: rstrip_Cons)
next
  case (Cons c cs)
  show ?case
  proof (cases "is_space c")
    case True
    with Cons show ?thesis by (simp add: rstrip_Cons)
  next
    case False
    with Cons show ?thesis by (simp add: rstrip_Cons)
  qed
qed

lemma lstrip_sub_spaces_dropWhile:
  "lstrip (sub_spaces (dropWhile is_space cs)) = lstrip (sub_spaces cs)"
  by (cases cs) (auto simp: lstrip_def)

lemma nf_strip_sub_spaces: "nf False p xs = strip (sub_spaces xs)"
proof (induction xs arbitrary: p)
  case Nil
  show ?case by (simp add: strip_def lstrip_def)
next
  case (Cons c cs)
  show ?case
  proof (cases "is_space c")
    case True
    have "strip (sub_spaces (c # cs)) = rstrip (lstrip (sub_spaces (dropWhile is_space cs)))"
      using True by (simp add: strip_def lstrip_def)
    also have "\<dots> = strip (sub_spaces cs)"
      by (simp add: lstrip_sub_spaces_dropWhile strip_def)
    finally show ?thesis using True Cons by simp
  next
    case False
    then show ?thesis
      using nf_rstrip_sub_spaces [of cs] by (simp add: strip_def lstrip_def rstrip_Cons)
  qed
qed

lemma nf_filter_canon:
  "nf w p (filter (\<lambda>c. is_az c \<or> is_digit c \<or> is_space c) (map canon_char xs)) = squeeze w p xs"
  by (induction xs arbitrary: w p) (auto simp: kept_def dest: kept_not_space)

lemma squeeze_False_flag: "squeeze False p xs = squeeze False q xs"
  by (induction xs arbitrary: p q) auto

lemma squeeze_lstrip: "squeeze False p (lstrip xs) = squeeze False p xs"
  by (induction xs) (auto simp: lstrip_def intro: squeeze_False_flag)

lemma squeeze_all_space: "\<forall>c \<in> set xs. is_space c \<Longrightarrow> squeeze w p xs = []"
  by (induction xs arbitrary: w p) auto

lemma squeeze_rstrip: "squeeze w p (rstrip xs) = squeeze w p xs"
proof (induction xs arbitrary: w p)
  case Nil
  show ?case by simp
next
  case (Cons c cs)
  show ?case
  proof (cases "is_space c \<and> rstrip cs = []")
    case True
    then have "\<forall>d \<in> set (c # cs). is_space d" by (simp add: rstrip_empty_iff)
    then have "squeeze w p (c # cs) = []" by (rule squeeze_all_space)
    with True show ?thesis by (simp add: rstrip_Cons)
  next
    case False
    then have "rstrip (c # cs) = c # rstrip cs" by (auto simp: rstrip_Cons)
    then show ?thesis using Cons by simp
  qed
qed

lemma squeeze_strip: "squeeze False False (strip xs) = squeeze False False xs"
  by (simp add: strip_def squeeze_rstrip squeeze_lstrip)

lemma dropWhile_space_map:
  "(\<And>c. is_space (f c) = is_space c) \<Longrightarrow>
   dropWhile is_space (map f xs) = map f (dropWhile is_space xs)"
  by (induction xs) auto

lemma strip_map:
  assumes "\<And>c. is_space (f c) = is_space c"
  shows "strip (map f xs) = map f (strip xs)"
proof -
  have "strip (map f xs) = rev (dropWhile is_space (map f (rev (dropWhile is_space xs))))"
    by (simp add: strip_def lstrip_def rstrip_def dropWhile_space_map [OF assms] rev_map)
  also have "\<dots> = map f (strip xs)"
    by (simp add: strip_def lstrip_def rstrip_def dropWhile_space_map [OF assms] rev_map)
  finally show ?thesis .
qed

lemma normalizar_titulo_squeeze: "normalizar_titulo s = squeeze False False s"
proof -
  have "foldl (\<lambda>t (acento, letra). replace_chr acento letra t) (strip (lower s)) reemplazos
        = map fold_char (strip (map lower_char s))"
    unfolding foldl_replace_chr lower_def fold_char_def ..
  also have "\<dots> = map canon_char (strip s)"
    by (simp add: strip_map canon_char_def)
  finally have "normalizar_titulo s =
      strip (sub_spaces (filter (\<lambda>c. is_az c \<or> is_digit c \<or> is_space c) (map canon_char (strip s))))"
    by (simp add: normalizar_titulo_def sub_no_alnum_def)
  also have "\<dots> = squeeze False False (strip s)"
    by (simp add: nf_strip_sub_spaces [of False, symmetric] nf_filter_canon)
  finally show ?thesis by (simp add: squeeze_strip)
qed

lemma squeeze_idem: "squeeze w False (squeeze w p s) = squeeze w p s"
proof (induction s arbitrary: w p)
  case Nil
  show ?case by simp
next
  case (Cons c cs)
  show ?case
  proof (cases "is_space c")
    case True
    then show ?thesis using Cons by simp
  next
    case ns: False
    show ?thesis
    proof (cases "kept (canon_char c)")
      case False
      with ns show ?thesis using Cons by simp
    next
      case True
      then have cc: "canon_char (canon_char c) = canon_char c"
        by (simp add: canon_char_kept)
      show ?thesis using ns True cc Cons [of True False] by simp
    qed
  qed
qed

lemma squeeze_append_cong:
  "(\<And>w p. squeeze w p ys = squeeze w p zs) \<Longrightarrow> squeeze w p (xs @ ys) = squeeze w p (xs @ zs)"
  by (induction xs arbitrary: w p) auto

lemma fold_step_hit:
  "(a, l) \<in> set rs \<Longrightarrow> distinct (map fst rs) \<Longrightarrow>
   \<forall>(a', l') \<in> set rs. \<not> kept a' \<and> kept l' \<Longrightarrow>
   foldl (\<lambda>d (acento, letra). if d = acento then letra else d) a rs = l"
proof (induction rs)
  case Nil
  then show ?case by simp
next
  case (Cons r rs)
  obtain a' l' where r: "r = (a', l')" by (cases r)
  show ?case
  proof (cases "a = a'")
    case True
    with Cons.prems r have "l = l'" by (auto simp: rev_image_eqI)
    moreover have "\<forall>(b, m) \<in> set rs. l' \<noteq> b" using Cons.prems(3) r by auto
    ultimately show ?thesis using True r by (simp add: fold_step_id)
  next
    case False
    with Cons r show ?thesis by auto
  qed
qed

lemma reemplazos_shape:
  "distinct (map fst reemplazos) \<and>
   (\<forall>(a, l) \<in> set reemplazos. \<not> kept a \<and> kept l) \<and>
   (\<forall>(a, l) \<in> set reemplazos. lower_char a = a)"
  by code_simp

lemma reemplazos_canon:
  assumes "(a, l) \<in> set reemplazos"
  shows "canon_char a = canon_char l" and "\<not> is_space a" and "\<not> is_space l"
proof -
  have la: "lower_char a = a" and kl: "kept l"
    using assms reemplazos_shape by auto
  have "fold_char a = l"
    unfolding fold_char_def using assms reemplazos_shape by (intro fold_step_hit) auto
  then show "canon_char a = canon_char l"
    by (simp add: canon_char_def la canon_char_kept [OF kl, unfolded canon_char_def])
  show "\<not> is_space a" "\<not> is_space l"
    using assms reemplazos_not_space by auto
qed

lemma canon_char_lower: "lower_char c = lower_char d \<Longrightarrow> canon_char c = canon_char d"
  by (simp add: canon_char_def)

lemma is_space_lower_eq: "lower_char c = lower_char d \<Longrightarrow> is_space c = is_space d"
  by (metis is_space_lower_char)

lemma variante_squeeze: "variante s t \<Longrightarrow> squeeze False False s = squeeze False False t"
proof (induction rule: variante.induct)
  case (v_case c d xs ys)
  then have "canon_char c = canon_char d" "is_space c = is_space d"
    by (rule canon_char_lower, rule is_space_lower_eq)
  then show ?case by (intro squeeze_append_cong) simp
next
  case (v_accent a l xs ys)
  then have "canon_char a = canon_char l" "\<not> is_space a" "\<not> is_space l"
    by (rule reemplazos_canon)+
  then show ?case by (intro squeeze_append_cong) simp
next
  case (v_punct c xs ys)
  then show ?case by (intro squeeze_append_cong) simp
next
  case (v_space c d xs ys)
  then show ?case by (intro squeeze_append_cong) simp
next
  case (v_run c d xs ys)
  then show ?case by (intro squeeze_append_cong) simp
next
  case (v_lead c xs)
  then show ?case by (simp add: squeeze_False_flag [of True xs False])
next
  case (v_trail c xs)
  have "squeeze False False (xs @ [c]) = squeeze False False (xs @ [])"
    using v_trail by (intro squeeze_append_cong) simp
  then show ?case by simp
qed simp_all

lemma cafe_variante: "variante [CHR ''C'', CHR ''a'', CHR ''f'', CHR 0xE9] ''cafe''"
proof -
  have "lower_char (CHR ''C'') = lower_char (CHR ''c'')" by code_simp
  then have "variante ([] @ CHR ''C'' # [CHR ''a'', CHR ''f'', CHR 0xE9])
                      ([] @ CHR ''c'' # [CHR ''a'', CHR ''f'', CHR 0xE9])"
    by (rule v_case)
  then have a: "variante [CHR ''C'', CHR ''a'', CHR ''f'', CHR 0xE9]
                         [CHR ''c'', CHR ''a'', CHR ''f'', CHR 0xE9]"
    by simp
  have "(CHR 0xE9, CHR ''e'') \<in> set reemplazos" by code_simp
  then have "variante (''caf'' @ CHR 0xE9 # []) (''caf'' @ CHR ''e'' # [])"
    by (rule v_accent)
  then have b: "variante [CHR ''c'', CHR ''a'', CHR ''f'', CHR 0xE9] ''cafe''"
    by simp
  show ?thesis by (rule v_trans [OF a b])
qed


section \<open>The lookup client and the pipeline: lemmas\<close>

lemma extract_movie_info_Some:
  "extract_movie_info soup u = Some info \<Longrightarrow>
   truthy (info_rating info) \<and> info_rating info = extract_rating soup \<and> info_url info = u"
  by (auto simp: extract_movie_info_def Let_def split: if_splits)

lemma extract_movie_info_None_iff:
  "extract_movie_info soup u = None \<longleftrightarrow> \<not> truthy (extract_rating soup)"
  by (simp add: extract_movie_info_def Let_def)

lemma details_truthy:
  "get_filmaffinity_details nw u w = (Some info, w') \<Longrightarrow> truthy (info_rating info)"
  by (auto simp: get_filmaffinity_details_def Let_def http_get_def
      split: http_outcome.splits if_splits prod.splits dest: extract_movie_info_Some)

lemma resolve_truthy:
  "resolve nw u soup w = (Some info, w') \<Longrightarrow> truthy (info_rating info)"
  by (auto simp: resolve_def resolve_in_place_def resolve_first_link_def Let_def
      split: option.splits if_splits dest: details_truthy extract_movie_info_Some)

lemma search_attempts_truthy:
  "search_attempts nw u retries as w = (Some info, w') \<Longrightarrow> truthy (info_rating info)"
proof (induction as arbitrary: w)
  case Nil
  then show ?case by simp
next
  case (Cons a as)
  then show ?case
    by (auto simp: Let_def http_get_def split: http_outcome.splits if_splits prod.splits
        dest: resolve_truthy)
qed

lemma search_truthy:
  "search_filmaffinity nw title retries w = (Some info, w') \<Longrightarrow> truthy (info_rating info)"
  unfolding search_filmaffinity_def by (rule search_attempts_truthy)

lemma truthy_Some: "truthy r \<Longrightarrow> \<exists>x. r = Some x \<and> x \<noteq> 0"
  by (cases r) (auto simp: truthy_def)

lemma paso_not_found:
  assumes "search_filmaffinity (internet e) (clean_title t) 3 (mundo s) = (None, w)"
  shows "paso e t s =
     s\<lparr>historial := agregar_al_historial (historial s) (clean_title t) (PyInt 0) False
                       (fecha_de e (nuevas_analizadas s)),
       nuevas_analizadas := nuevas_analizadas s + 1,
       mundo := w,
       disco := snd (guardar_historial (write_fault e (nuevas_analizadas s))
                  (agregar_al_historial (historial s) (clean_title t) (PyInt 0) False
                       (fecha_de e (nuevas_analizadas s))) (disco s))\<rparr>"
  using assms by (simp add: paso_def Let_def split: prod.splits)

lemma paso_found:
  assumes "search_filmaffinity (internet e) (clean_title t) 3 (mundo s) = (Some info, w)"
  shows "\<exists>r. info_rating info = Some r \<and> r \<noteq> 0 \<and> paso e t s =
     s\<lparr>historial := agregar_al_historial (historial s) (clean_title t) (PyFloat r)
                       (MIN_RATING \<le> r) (fecha_de e (nuevas_analizadas s)),
       nuevas_analizadas := nuevas_analizadas s + 1,
       good_movies := (if MIN_RATING \<le> r then good_movies s @ [(original_title t, info)]
                       else good_movies s),
       mundo := w,
       disco := snd (guardar_historial (write_fault e (nuevas_analizadas s))
                  (agregar_al_historial (historial s) (clean_title t) (PyFloat r)
                       (MIN_RATING \<le> r) (fecha_de e (nuevas_analizadas s))) (disco s))\<rparr>"
proof -
  from search_truthy [OF assms] obtain r where r: "info_rating info = Some r" "r \<noteq> 0"
    using truthy_Some by blast
  then show ?thesis using assms by (simp add: paso_def Let_def split: prod.splits)
qed

lemma absolute_url_nonempty: "href \<noteq> [] \<Longrightarrow> absolute_url href \<noteq> []"
  by (simp add: absolute_url_def)

lemma not_raise_not_429: "\<not> raise_for_status st \<Longrightarrow> st \<noteq> 429 \<and> st \<noteq> 403"
  by (auto simp: raise_for_status_def)

lemma search_first_ok:
  assumes "nw (gets w) = Response st soup" and "\<not> raise_for_status st" and "0 < retries"
  shows "search_filmaffinity nw title retries w =
     resolve nw (FILMAFFINITY_SEARCH_URL @ quote_plus title) soup
       (snd (http_get nw (FILMAFFINITY_SEARCH_URL @ quote_plus title) (sleep_uniform 3 6 w)))"
proof -
  have "[0..<nat retries] = 0 # [1..<nat retries]"
    using assms(3) by (simp add: upt_conv_Cons)
  then show ?thesis
    using assms(1,2) not_raise_not_429 [OF assms(2)]
    by (simp add: search_filmaffinity_def Let_def http_get_def sleep_uniform_def)
qed

lemma details_ok:
  assumes "nw (gets w) = Response st soup" and "\<not> raise_for_status st"
  shows "get_filmaffinity_details nw u w =
     (extract_movie_info soup u, snd (http_get nw u (sleep_uniform 2 4 w)))"
  using assms not_raise_not_429 [OF assms(2)]
  by (simp add: get_filmaffinity_details_def Let_def http_get_def sleep_uniform_def)

lemma search_rating7:
  "search_filmaffinity net_rating7 ''Dune'' 3 world0 =
     (extract_movie_info page_rating7 (FILMAFFINITY_SEARCH_URL @ quote_plus ''Dune''),
      snd (http_get net_rating7 (FILMAFFINITY_SEARCH_URL @ quote_plus ''Dune'') (sleep_uniform 3 6 world0)))"
proof -
  have "search_filmaffinity net_rating7 ''Dune'' 3 world0 =
     resolve net_rating7 (FILMAFFINITY_SEARCH_URL @ quote_plus ''Dune'') page_rating7
       (snd (http_get net_rating7 (FILMAFFINITY_SEARCH_URL @ quote_plus ''Dune'') (sleep_uniform 3 6 world0)))"
    by (rule search_first_ok [where st = 200]) (simp_all add: net_rating7_def raise_for_status_def)
  moreover have "extract_rating page_rating7 = Some 7"
    by (simp add: extract_rating_def page_rating7_def empty_page_def)
  moreover have "card_href page_rating7 = None"
    by (simp add: page_rating7_def empty_page_def)
  ultimately show ?thesis
    by (simp add: resolve_def resolve_in_place_def truthy_def)
qed

lemma search_attempts_down: "fst (search_attempts net_down u r as w) = None"
  by (induction as arbitrary: w) (simp_all add: Let_def http_get_def net_down_def)

lemma search_down: "\<exists>w'. search_filmaffinity net_down title r w = (None, w')"
  using search_attempts_down [of "FILMAFFINITY_SEARCH_URL @ quote_plus title" r "[0..<nat r]" w]
  by (cases "search_filmaffinity net_down title r w") (simp add: search_filmaffinity_def)

lemma paso_dom:
  "dom (historial (paso e t s)) = insert (normalizar_titulo (clean_title t)) (dom (historial s))"
  by (simp add: paso_def Let_def agregar_al_historial_def split: prod.splits option.splits)

lemma paso_nuevas: "nuevas_analizadas (paso e t s) = Suc (nuevas_analizadas s)"
  by (simp add: paso_def Let_def split: prod.splits option.splits)

lemma paso_disco:
  "write_fault e (nuevas_analizadas s) = No_fault \<Longrightarrow>
   disco (paso e t s) = Documento (historial (paso e t s))"
  by (simp add: paso_def Let_def guardar_historial_def split: prod.splits option.splits)

lemma procesar_dom:
  "dom (historial (procesar e ts s)) =
   dom (historial s) \<union> (\<lambda>t. normalizar_titulo (clean_title t)) ` set ts"
  by (induction ts arbitrary: s) (auto simp: paso_dom)

lemma ya_analizada_dom: "ya_analizada h x \<longleftrightarrow> normalizar_titulo x \<in> dom h"
  by (auto simp: ya_analizada_def)

lemma sleeps_append: "sleeps (xs @ ys) = sleeps xs @ sleeps ys"
  by (induction xs rule: sleeps.induct) simp_all

lemma requests_append: "requests (xs @ ys) = requests xs @ requests ys"
  by (induction xs rule: requests.induct) simp_all

lemma sleeps_rate_limited_upto:
  "m \<le> n \<Longrightarrow> sleeps (concat (map (rate_limited_events u n) [0..<m])) =
     map (\<lambda>i. (int i + 1) * 30) [0..<min m (n - 1)]"
proof (induction m)
  case 0
  show ?case by simp
next
  case (Suc m)
  then have "sleeps (concat (map (rate_limited_events u n) [0..<m])) =
     map (\<lambda>i. (int i + 1) * 30) [0..<min m (n - 1)]" by simp
  moreover have "sleeps (rate_limited_events u n m) = (if m + 1 < n then [(int m + 1) * 30] else [])"
    by (simp add: rate_limited_events_def)
  ultimately show ?case using Suc.prems
    by (auto simp: sleeps_append min_def)
qed

lemma sleeps_rate_limited_log:
  "sleeps (rate_limited_log u n) = map (\<lambda>i. (int i + 1) * 30) [0..<n - 1]"
  using sleeps_rate_limited_upto [of n n u] by (simp add: rate_limited_log_def)

lemma requests_rate_limited_upto:
  "requests (concat (map (rate_limited_events u n) [0..<m])) = replicate m u"
proof (induction m)
  case 0
  show ?case by simp
next
  case (Suc m)
  have "requests (rate_limited_events u n m) = [u]"
    by (simp add: rate_limited_events_def)
  with Suc show ?case
    by (simp add: requests_append replicate_append_same)
qed

lemma requests_rate_limited_log: "requests (rate_limited_log u n) = replicate n u"
  by (simp add: rate_limited_log_def requests_rate_limited_upto)

lemma search_attempts_429_step:
  "nw (gets w) = Response 429 soup \<Longrightarrow>
   search_attempts nw u retries (i # rest) w =
     (if int i < retries - 1
      then search_attempts nw u retries rest
             (sleep ((int i + 1) * 30)
                (snd (http_get nw u (if i = 0 then sleep_uniform 3 6 w else sleep_uniform 10 20 w))))
      else (None, snd (http_get nw u (if i = 0 then sleep_uniform 3 6 w else sleep_uniform 10 20 w))))"
  by (simp add: Let_def http_get_def sleep_uniform_def)

lemma search_attempts_429:
  assumes "\<And>k. \<exists>soup. nw (gets w + k) = Response 429 soup"
  shows "\<exists>w'. search_attempts nw u retries [i..<nat retries] w = (None, w') \<and>
     gets w' = gets w + (nat retries - i) \<and>
     log w' = log w @ concat (map (rate_limited_events u (nat retries)) [i..<nat retries])"
  using assms
proof (induction "nat retries - i" arbitrary: i w)
  case 0
  then show ?case by simp
next
  case (Suc d)
  then have lt: "i < nat retries" by simp
  then have up: "[i..<nat retries] = i # [Suc i..<nat retries]" by (simp add: upt_conv_Cons)
  let ?w1 = "if i = 0 then sleep_uniform 3 6 w else sleep_uniform 10 20 w"
  let ?w2 = "snd (http_get nw u ?w1)"
  obtain soup where r: "nw (gets w) = Response 429 soup"
    using Suc.prems [of 0] by auto
  note step = search_attempts_429_step [of nw w soup u retries i "[Suc i..<nat retries]", OF r]
  have g1: "gets ?w1 = gets w" by (simp add: sleep_uniform_def)
  have h: "http_get nw u ?w1 = (Response 429 soup, ?w2)"
    using r g1 by (simp add: http_get_def)
  have g2: "gets ?w2 = Suc (gets w)" using g1 by (simp add: http_get_def)
  have l2: "log ?w2 = log w @ [if i = 0 then Sleep_uniform 3 6 else Sleep_uniform 10 20, Get u]"
    by (simp add: http_get_def sleep_uniform_def)
  show ?case
  proof (cases "Suc i < nat retries")
    case True
    then have c: "int i < retries - 1" by linarith
    let ?w3 = "sleep ((int i + 1) * 30) ?w2"
    have g3: "gets ?w3 = Suc (gets w)" using g2 by (simp add: sleep_def)
    have "\<exists>soup. nw (gets ?w3 + k) = Response 429 soup" for k
      using Suc.prems [of "Suc k"] g3 by simp
    moreover have "d = nat retries - Suc i" using Suc.hyps(2) by simp
    ultimately obtain w' where w': "search_attempts nw u retries [Suc i..<nat retries] ?w3 = (None, w')"
      "gets w' = gets ?w3 + (nat retries - Suc i)"
      "log w' = log ?w3 @ concat (map (rate_limited_events u (nat retries)) [Suc i..<nat retries])"
      using Suc.hyps(1) [of "Suc i" ?w3] by blast
    have "search_attempts nw u retries [i..<nat retries] w = (None, w')"
      unfolding up step using c w'(1) by simp
    moreover have "gets w' = gets w + (nat retries - i)"
      using w'(2) g3 True by simp
    moreover have "log ?w3 = log w @ rate_limited_events u (nat retries) i"
      using l2 True by (simp add: sleep_def rate_limited_events_def)
    then have "log w' = log w @ concat (map (rate_limited_events u (nat retries)) [i..<nat retries])"
      using w'(3) up by simp
    ultimately show ?thesis by blast
  next
    case False
    with lt have e: "Suc i = nat retries" by simp
    then have c: "\<not> int i < retries - 1" by linarith
    have "search_attempts nw u retries [i..<nat retries] w = (None, ?w2)"
      unfolding up step using c by simp
    moreover have "gets ?w2 = gets w + (nat retries - i)" using g2 e by simp
    moreover have "log ?w2 = log w @ concat (map (rate_limited_events u (nat retries)) [i..<nat retries])"
      using l2 e up by (simp add: rate_limited_events_def)
    ultimately show ?thesis by blast
  qed
qed

lemma details_down: "fst (get_filmaffinity_details net_down u w) = None"
  by (simp add: get_filmaffinity_details_def Let_def http_get_def net_down_def)

lemma procesar_disco:
  "(\<And>n. write_fault e n = No_fault) \<Longrightarrow> disco s = Documento (historial s) \<or> ts \<noteq> [] \<Longrightarrow>
   disco (procesar e ts s) = Documento (historial (procesar e ts s))"
proof (induction ts arbitrary: s)
  case Nil
  then show ?case by simp
next
  case (Cons t ts)
  have "disco (paso e t s) = Documento (historial (paso e t s))"
    by (rule paso_disco) (rule Cons.prems(1))
  then show ?case using Cons.IH [of "paso e t s"] Cons.prems(1) by simp
qed

lemma procesar_nuevas:
  "nuevas_analizadas (procesar e ts s) = nuevas_analizadas s + length ts"
  by (induction ts arbitrary: s) (simp_all add: paso_nuevas)

lemma paso_mundo:
  "mundo (paso e t s) = snd (search_filmaffinity (internet e) (clean_title t) 3 (mundo s))"
  by (simp add: paso_def Let_def split: prod.splits option.splits)

lemma main_unfold:
  assumes "titles \<noteq> []" and "fst (cargar_historial (read_fault e) disk) = Inr h"
  shows "main e titles w disk =
     Inr \<lparr>final = procesar e (take MAX_PELICULAS_POR_EJECUCION
                       (filter (\<lambda>t. \<not> ya_analizada h (clean_title t)) titles))
                     \<lparr>historial = h, good_movies = [], nuevas_analizadas = 0, mundo = w, disco = disk\<rparr>,
          saltadas = length (filter (\<lambda>t. ya_analizada h (clean_title t)) titles),
          enviadas = (if telegram e
            then good_movies (procesar e (take MAX_PELICULAS_POR_EJECUCION
                       (filter (\<lambda>t. \<not> ya_analizada h (clean_title t)) titles))
                     \<lparr>historial = h, good_movies = [], nuevas_analizadas = 0, mundo = w, disco = disk\<rparr>)
            else [])\<rparr>"
  using assms by (simp add: main_def Let_def)

lemma main_all_skipped:
  assumes "fst (cargar_historial (read_fault e) disk) = Inr h"
    and "\<forall>t \<in> set titles. ya_analizada h (clean_title t)"
  shows "main e titles w disk =
     Inr \<lparr>final = \<lparr>historial = h, good_movies = [], nuevas_analizadas = 0, mundo = w, disco = disk\<rparr>,
          saltadas = length titles, enviadas = []\<rparr>"
proof (cases "titles = []")
  case True
  then show ?thesis using assms(1) by (simp add: main_def Let_def)
next
  case False
  have "filter (\<lambda>t. \<not> ya_analizada h (clean_title t)) titles = []"
    using assms(2) by (simp add: filter_empty_conv)
  moreover have "filter (\<lambda>t. ya_analizada h (clean_title t)) titles = titles"
    using assms(2) by (simp add: filter_id_conv)
  ultimately show ?thesis using main_unfold [OF False assms(1)] by simp
qed

lemma not_ya_analizada_vacio: "\<not> ya_analizada historial_vacio x"
  by (simp add: ya_analizada_def historial_vacio_def)

lemma cargar_historial_Documento: "fst (cargar_historial False (Documento h)) = Inr h"
  by (simp add: cargar_historial_def path_exists_def json_load_def)

lemma search_attempts_down_gets:
  "gets (snd (search_attempts net_down u r as w)) = gets w + length as"
  by (induction as arbitrary: w)
     (simp_all add: Let_def http_get_def net_down_def sleep_uniform_def)

lemma paso_down_gets:
  "internet e = net_down \<Longrightarrow> gets (mundo (paso e t s)) = gets (mundo s) + 3"
  by (simp add: paso_mundo search_filmaffinity_def search_attempts_down_gets)

lemma procesar_down_gets:
  "internet e = net_down \<Longrightarrow> gets (mundo (procesar e ts s)) = gets (mundo s) + 3 * length ts"
  by (induction ts arbitrary: s) (simp_all add: paso_down_gets)

lemma veinte_length: "length veinte = 20"
  by (simp add: veinte_def)

lemma veinte_keys:
  "normalizar_titulo (clean_title (titulo_de ''Pelicula 21''))
     \<notin> (\<lambda>t. normalizar_titulo (clean_title t)) ` set veinte"
  by code_simp

lemma cargar_historial_read_fault: "fst (cargar_historial True disk) = Inr historial_vacio"
  by (simp add: cargar_historial_def)

lemma main_load_raises:
  "fst (cargar_historial (read_fault e) disk) = Inl x \<Longrightarrow> main e titles w disk = Inl x"
  by (simp add: main_def)

lemma recordado_Documento:
  "recordado x d \<longleftrightarrow> (\<exists>h. d = Documento h \<and> ya_analizada h x)"
  by (cases d) (simp_all add: recordado_def)

lemma procesar_ya_analizada:
  "ya_analizada (historial s) x \<Longrightarrow> ya_analizada (historial (procesar e ts s)) x"
  by (simp add: ya_analizada_dom procesar_dom)

lemma main_recordado:
  assumes d: "d = Documento h" and x: "ya_analizada h (clean_title t)"
    and rf: "\<not> read_fault e2" and wf: "\<forall>n. write_fault e2 n = No_fault"
  shows "\<exists>r2. main e2 titles w2 d = Inr r2 \<and>
      t \<notin> set (take MAX_PELICULAS_POR_EJECUCION
                 (filter (\<lambda>y. \<not> ya_analizada h (clean_title y)) titles)) \<and>
      final r2 = (if titles = []
                  then \<lparr>historial = h, good_movies = [], nuevas_analizadas = 0, mundo = w2, disco = d\<rparr>
                  else procesar e2 (take MAX_PELICULAS_POR_EJECUCION
                         (filter (\<lambda>y. \<not> ya_analizada h (clean_title y)) titles))
                       \<lparr>historial = h, good_movies = [], nuevas_analizadas = 0, mundo = w2, disco = d\<rparr>) \<and>
      recordado (clean_title t) (disco (final r2))"
proof -
  let ?s0 = "\<lparr>historial = h, good_movies = [], nuevas_analizadas = 0, mundo = w2, disco = d\<rparr>"
  let ?P = "take MAX_PELICULAS_POR_EJECUCION (filter (\<lambda>y. \<not> ya_analizada h (clean_title y)) titles)"
  have l: "fst (cargar_historial (read_fault e2) d) = Inr h"
    using d rf by (simp add: cargar_historial_Documento)
  have nt: "t \<notin> set ?P"
  proof
    assume "t \<in> set ?P"
    then have "t \<in> set (filter (\<lambda>y. \<not> ya_analizada h (clean_title y)) titles)"
      by (rule in_set_takeD)
    with x show False by simp
  qed
  have r0: "recordado (clean_title t) (disco ?s0)"
    using d x by (simp add: recordado_def)
  have "disco (procesar e2 ?P ?s0) = Documento (historial (procesar e2 ?P ?s0))"
    using wf d by (intro procesar_disco) auto
  moreover have "ya_analizada (historial (procesar e2 ?P ?s0)) (clean_title t)"
    using x by (intro procesar_ya_analizada) simp
  ultimately have rp: "recordado (clean_title t) (disco (procesar e2 ?P ?s0))"
    by (simp add: recordado_def)
  show ?thesis
  proof (cases "titles = []")
    case True
    then have "main e2 titles w2 d = Inr \<lparr>final = ?s0, saltadas = 0, enviadas = []\<rparr>"
      using l by (simp add: main_def Let_def)
    then show ?thesis using True r0 by simp
  next
    case False
    from main_unfold [OF False l, of w2] nt rp False show ?thesis by simp
  qed
qed

lemma forget_zero_page_fields:
  "card_href (forget_zero_page soup) = card_href soup"
  "film_href (forget_zero_page soup) = film_href soup"
  by (simp_all add: forget_zero_page_def split: option.splits)

lemma forget_zero_page_truthy:
  "truthy (extract_rating (forget_zero_page soup)) = truthy (extract_rating soup)"
  by (auto simp: forget_zero_page_def truthy_def extract_rating_def split: option.splits)

lemma forget_zero_page_info:
  "extract_movie_info (forget_zero_page soup) u = extract_movie_info soup u"
proof (cases "extract_rating soup = Some 0")
  case True
  then have "\<not> truthy (extract_rating soup)" by (simp add: truthy_def)
  then have "extract_movie_info soup u = None" "extract_movie_info (forget_zero_page soup) u = None"
    by (simp_all add: extract_movie_info_None_iff forget_zero_page_truthy)
  then show ?thesis by simp
next
  case False
  then have "forget_zero_page soup = soup"
    by (auto simp: forget_zero_page_def split: option.splits)
  then show ?thesis by simp
qed

lemma forget_zero_simps:
  "forget_zero Raises = Raises"
  "forget_zero (Response st soup) = Response st (forget_zero_page soup)"
  by (simp_all add: forget_zero_def)

lemma http_get_forget_zero:
  "http_get (\<lambda>n. forget_zero (nw n)) u w = (forget_zero (fst (http_get nw u w)), snd (http_get nw u w))"
  by (simp add: http_get_def)

lemma details_forget_zero:
  "get_filmaffinity_details (\<lambda>n. forget_zero (nw n)) u w = get_filmaffinity_details nw u w"
  by (cases "nw (gets w)"; cases "nw (Suc (gets w))")
     (simp_all add: get_filmaffinity_details_def Let_def http_get_def sleep_def sleep_uniform_def
        forget_zero_simps forget_zero_page_info)

lemma resolve_forget_zero:
  "resolve (\<lambda>n. forget_zero (nw n)) u (forget_zero_page soup) w = resolve nw u soup w"
  by (simp add: resolve_def resolve_in_place_def resolve_first_link_def Let_def
      forget_zero_page_fields forget_zero_page_truthy forget_zero_page_info details_forget_zero
      split: option.splits)

lemma search_attempts_forget_zero:
  "search_attempts (\<lambda>n. forget_zero (nw n)) u retries as w = search_attempts nw u retries as w"
proof (induction as arbitrary: w)
  case Nil
  show ?case by simp
next
  case (Cons a as)
  show ?case
    by (cases "nw (gets w)")
       (simp_all add: Let_def http_get_def sleep_uniform_def forget_zero_simps Cons
          resolve_forget_zero)
qed

lemma search_forget_zero:
  "search_filmaffinity (\<lambda>n. forget_zero (nw n)) title retries w = search_filmaffinity nw title retries w"
  by (simp add: search_filmaffinity_def search_attempts_forget_zero)

lemma paso_forget_zero:
  "paso (e\<lparr>internet := (\<lambda>n. forget_zero (internet e n))\<rparr>) t s = paso e t s"
  by (simp add: paso_def search_forget_zero)

lemma details_no_rating:
  assumes "\<forall>n st soup. nw n = Response st soup \<longrightarrow> \<not> truthy (extract_rating soup)"
  shows "fst (get_filmaffinity_details nw u w) = None"
  using assms
  by (cases "nw (gets w)"; cases "nw (Suc (gets w))")
     (simp_all add: get_filmaffinity_details_def Let_def http_get_def sleep_def sleep_uniform_def
        extract_movie_info_None_iff)

lemma resolve_no_rating:
  assumes "\<forall>n st soup. nw n = Response st soup \<longrightarrow> \<not> truthy (extract_rating soup)"
    and "\<not> truthy (extract_rating soup)"
  shows "fst (resolve nw u soup w) = None"
  using assms(2) details_no_rating [OF assms(1)]
  by (simp add: resolve_def resolve_in_place_def resolve_first_link_def Let_def
      split: option.splits)

lemma search_attempts_no_rating:
  assumes "\<forall>n st soup. nw n = Response st soup \<longrightarrow> \<not> truthy (extract_rating soup)"
  shows "fst (search_attempts nw u retries as w) = None"
proof (induction as arbitrary: w)
  case Nil
  show ?case by simp
next
  case (Cons a as)
  show ?case
  proof (cases "nw (gets w)")
    case Raises
    then show ?thesis by (simp add: Let_def http_get_def sleep_uniform_def Cons)
  next
    case (Response st soup)
    with assms have "\<not> truthy (extract_rating soup)" by blast
    from resolve_no_rating [OF assms this] Response show ?thesis
      by (simp add: Let_def http_get_def sleep_uniform_def Cons)
  qed
qed

lemma search_no_rating:
  assumes "\<forall>n st soup. nw n = Response st soup \<longrightarrow> \<not> truthy (extract_rating soup)"
  shows "fst (search_filmaffinity nw title retries w) = None"
  unfolding search_filmaffinity_def by (rule search_attempts_no_rating [OF assms])

lemma paso_search_None:
  assumes "fst (search_filmaffinity (internet e) (clean_title t) 3 (mundo s)) = None"
  shows "historial (paso e t s) (normalizar_titulo (clean_title t)) =
      Some \<lparr>titulo = clean_title t, nota = PyInt 0,
            fecha = fecha_de e (nuevas_analizadas s), notificado = False\<rparr> \<and>
    good_movies (paso e t s) = good_movies s"
proof -
  obtain w where "search_filmaffinity (internet e) (clean_title t) 3 (mundo s) = (None, w)"
    using assms by (cases "search_filmaffinity (internet e) (clean_title t) 3 (mundo s)") simp
  from paso_not_found [OF this] show ?thesis by (simp add: agregar_al_historial_def)
qed


section \<open>The dedup key: theorems\<close>

text \<open>
  Claim C9. \<open>normalizar_titulo\<close> is idempotent: applied to one of its own results it
  returns that result unchanged.
\<close>

theorem normalizar_titulo_idempotent:
  "normalizar_titulo (normalizar_titulo x) = normalizar_titulo x"
  by (simp add: normalizar_titulo_squeeze squeeze_idem)





section \<open>The history store: theorems\<close>

text \<open>
  Claim C1, as stated, fails: \<open>guardar_historial\<close> writes \<open>historial.json\<close> in place.
  \<open>open(HISTORIAL_FILE, 'w')\<close> truncates the file and \<open>json.dump\<close> then writes into it; no
  temporary file is written and nothing is renamed. While the history with Dune and Alien
  is being saved over the document that holds Dune, the file is neither the old document nor
  the new one; a process stopped there leaves a file from which the next
  \<open>cargar_historial\<close> returns the empty history, in which Dune is no longer known.
\<close>

theorem guardar_historial_in_place_counterexample:
  "guardar_historial_states historial_dune_alien (Documento historial_dune) ! 1 = Incompleto \<and>
   Incompleto \<noteq> Documento historial_dune \<and>
   Incompleto \<noteq> Documento historial_dune_alien \<and>
   fst (cargar_historial False Incompleto) = Inr historial_vacio \<and>
   ya_analizada historial_dune ''Dune'' \<and>
   \<not> ya_analizada historial_vacio ''Dune''"
proof -
  have "normalizar_titulo ''Dune'' = ''dune''" by code_simp
  then show ?thesis
    by (simp add: guardar_historial_states_def cargar_historial_def path_exists_def json_load_def
        ya_analizada_def historial_dune_def agregar_al_historial_def historial_vacio_def)
qed

text \<open>
  Claim C1, amended. When \<open>guardar_historial\<close> returns \<open>True\<close> the file holds the
  document of the history it was given, and \<open>cargar_historial\<close> reads that history back. The
  file is written in place: it passes through a truncated state between the old document
  and the new one.
\<close>

theorem guardar_historial_success:
  "fst (guardar_historial fault h disk) \<Longrightarrow>
   snd (guardar_historial fault h disk) = Documento h \<and>
   cargar_historial False (snd (guardar_historial fault h disk)) = (Inr h, []) \<and>
   guardar_historial_states h disk = [disk, Incompleto, Documento h]"
  by (cases fault) (simp_all add: guardar_historial_def cargar_historial_def path_exists_def json_load_def
      guardar_historial_states_def)

text \<open>
  A call without fault returns \<open>True\<close>.
\<close>

theorem guardar_historial_success_witness:
  "fst (guardar_historial No_fault historial_dune Ausente) \<and>
   snd (guardar_historial No_fault historial_dune Ausente) = Documento historial_dune \<and>
   cargar_historial False (snd (guardar_historial No_fault historial_dune Ausente))
     = (Inr historial_dune, [])"
  using guardar_historial_success [of No_fault historial_dune Ausente]
  by (simp add: guardar_historial_def)

text \<open>
  Claim C2, as stated, fails: on a file whose text \<open>json.load\<close> rejects,
  \<open>cargar_historial\<close> catches the \<open>JSONDecodeError\<close>, prints one line and returns the empty
  history \<open>{"peliculas": {}}\<close>; no error reaches the caller.
\<close>

theorem cargar_historial_corrupt_counterexample:
  "cargar_historial False Corrupto =
     (Inr historial_vacio, [Error_cargando_historial JSONDecodeError])"
  by (simp add: cargar_historial_def path_exists_def json_load_def)

text \<open>
  Claim C2, amended. On a file whose text is not JSON (also an empty file and a document cut
  between two characters) \<open>cargar_historial\<close> catches the \<open>JSONDecodeError\<close>, prints a line and
  returns the empty history; so it does, catching the \<open>IOError\<close>, on an existing file that
  cannot be opened. Only these two exceptions are caught: on a file that is not UTF-8 the
  \<open>UnicodeDecodeError\<close>, and on one nested too deep the \<open>RecursionError\<close>, leave the function,
  and \<open>main\<close> ends with them. On an absent file the empty history is returned and nothing is
  printed; a well-formed document is read back. The simpler script's \<open>load_processed\<close> has
  no handler: there every exception of \<open>json.load\<close> leaves the function, and an absent file
  gives the empty set.
\<close>

theorem cargar_historial_outcomes:
  "cargar_historial False Corrupto =
     (Inr historial_vacio, [Error_cargando_historial JSONDecodeError]) \<and>
   cargar_historial False Incompleto =
     (Inr historial_vacio, [Error_cargando_historial JSONDecodeError]) \<and>
   (path_exists disk \<longrightarrow>
      cargar_historial True disk = (Inr historial_vacio, [Error_cargando_historial OSError])) \<and>
   cargar_historial False Indecodificable = (Inl UnicodeDecodeError, []) \<and>
   cargar_historial False Anidado = (Inl RecursionError, []) \<and>
   (\<not> read_fault e \<longrightarrow> main e titles w Indecodificable = Inl UnicodeDecodeError \<and>
                        main e titles w Anidado = Inl RecursionError) \<and>
   cargar_historial rf Ausente = (Inr historial_vacio, []) \<and>
   cargar_historial False (Documento h) = (Inr h, []) \<and>
   load_processed Corrupto = Inl JSONDecodeError \<and>
   load_processed Incompleto = Inl JSONDecodeError \<and>
   load_processed Indecodificable = Inl UnicodeDecodeError \<and>
   load_processed Ausente = Inr {}"
  by (simp add: cargar_historial_def path_exists_def json_load_def load_processed_def main_def)

text \<open>
  A file that cannot be opened, and a run that can open a file that is not UTF-8.
\<close>

theorem cargar_historial_outcomes_witness:
  "path_exists (Corrupto :: historial archivo) \<and>
   cargar_historial True Corrupto = (Inr historial_vacio, [Error_cargando_historial OSError]) \<and>
   \<not> read_fault entorno_down \<and>
   main entorno_down [titulo_de ''Dune''] world0 Indecodificable = Inl UnicodeDecodeError"
proof -
  have a: "path_exists (Corrupto :: historial archivo)" by (simp add: path_exists_def)
  have b: "\<not> read_fault entorno_down" by (simp add: entorno_down_def)
  from cargar_historial_outcomes [of Corrupto entorno_down "[titulo_de ''Dune'']" world0] a b
  show ?thesis by blast
qed


section \<open>The lookup client: theorems\<close>

text \<open>
  Claim C3. When every request is answered with status 429, \<open>search_filmaffinity\<close>
  returns \<open>None\<close> after exactly \<open>retries\<close> requests (none when \<open>retries\<close> is not positive); its
  log is, for each attempt, the courtesy delay and the request, followed, between consecutive
  attempts, by a wait of 30 seconds times the number of the attempt (30, 60, ...). The model
  has no other outcome than a returned pair: nothing is raised.
\<close>

theorem rate_limit_exhaustion:
  "(\<forall>k. \<exists>soup. nw (gets w + k) = Response 429 soup) \<Longrightarrow>
   \<exists>w'. search_filmaffinity nw title retries w = (None, w') \<and>
     gets w' = gets w + nat retries \<and>
     log w' = log w @ rate_limited_log (FILMAFFINITY_SEARCH_URL @ quote_plus title) (nat retries) \<and>
     requests (rate_limited_log (FILMAFFINITY_SEARCH_URL @ quote_plus title) (nat retries)) =
       replicate (nat retries) (FILMAFFINITY_SEARCH_URL @ quote_plus title) \<and>
     sleeps (rate_limited_log (FILMAFFINITY_SEARCH_URL @ quote_plus title) (nat retries)) =
       map (\<lambda>i. (int i + 1) * 30) [0..<nat retries - 1]"
proof -
  assume "\<forall>k. \<exists>soup. nw (gets w + k) = Response 429 soup"
  then have "\<exists>soup. nw (gets w + k) = Response 429 soup" for k by blast
  from search_attempts_429 [of nw w "FILMAFFINITY_SEARCH_URL @ quote_plus title" retries 0, OF this]
  show ?thesis
    by (simp add: search_filmaffinity_def rate_limited_log_def [symmetric]
        sleeps_rate_limited_log requests_rate_limited_log)
qed

text \<open>
  With the default budget of 3: three requests, and waits of 30 and 60 seconds.
\<close>

theorem rate_limit_exhaustion_witness:
  "(\<forall>k. \<exists>soup. net_429 (gets world0 + k) = Response 429 soup) \<and>
   fst (search_filmaffinity net_429 ''Dune'' 3 world0) = None \<and>
   gets (snd (search_filmaffinity net_429 ''Dune'' 3 world0)) = 3 \<and>
   sleeps (log (snd (search_filmaffinity net_429 ''Dune'' 3 world0))) = [30, 60]"
proof -
  have a: "\<forall>k. \<exists>soup. net_429 (gets world0 + k) = Response 429 soup"
    by (simp add: net_429_def)
  have "[0..<2] = [0, Suc 0]" by (simp add: upt_rec)
  with rate_limit_exhaustion [OF a, of "''Dune''" 3] a show ?thesis
    by (auto simp: world0_def)
qed




text \<open>
  Claim C10, as stated, fails in its last part. When the search is answered with the page of
  the zero-rated film itself and that page holds a link to another film, the rating 0.0 is
  passed over as a missing one is, and \<open>search_filmaffinity\<close> goes on to the first film link of
  the page: it follows the link, finds there a film rated 7.0, and the title is recorded as
  found, with the rating 7.0 and \<open>notificado = True\<close>, not as not found.
\<close>

theorem zero_rating_counterexample:
  "extract_rating zero_with_link = Some 0 \<and>
   internet entorno_zero_direct (gets (mundo estado0)) = Response 200 zero_with_link \<and>
   historial (paso entorno_zero_direct (titulo_de ''Dune'') estado0)
       (normalizar_titulo (clean_title (titulo_de ''Dune''))) =
     Some \<lparr>titulo = ''Dune'', nota = PyFloat 7, fecha = ''2024-01-01'', notificado = True\<rparr>"
proof -
  let ?e = entorno_zero_direct
  let ?u = "FILMAFFINITY_SEARCH_URL @ quote_plus ''Dune''"
  let ?w2 = "snd (http_get net_zero_direct ?u (sleep_uniform 3 6 world0))"
  let ?l = "absolute_url ''/es/film456.html''"
  have z: "extract_rating zero_with_link = Some 0"
    by (simp add: extract_rating_def zero_with_link_def empty_page_def)
  have n0: "internet ?e (gets (mundo estado0)) = Response 200 zero_with_link"
    by (simp add: entorno_zero_direct_def entorno_down_def net_zero_direct_def estado0_def world0_def)
  have f: "card_href zero_with_link = None" "film_href zero_with_link = Some ''/es/film456.html''"
    by (simp_all add: zero_with_link_def empty_page_def)
  have g: "gets ?w2 = 1" by (simp add: http_get_def sleep_uniform_def world0_def)
  have "search_filmaffinity net_zero_direct ''Dune'' 3 world0 = resolve net_zero_direct ?u zero_with_link ?w2"
    by (rule search_first_ok [where st = 200])
       (simp_all add: net_zero_direct_def world0_def raise_for_status_def)
  also have "\<dots> = get_filmaffinity_details net_zero_direct ?l ?w2"
    using z f by (simp add: resolve_def resolve_in_place_def resolve_first_link_def Let_def
        truthy_def absolute_url_nonempty)
  also have "\<dots> = (extract_movie_info page_rating7 ?l,
      snd (http_get net_zero_direct ?l (sleep_uniform 2 4 ?w2)))"
    by (rule details_ok [where st = 200]) (simp_all add: g net_zero_direct_def raise_for_status_def)
  finally have s: "search_filmaffinity net_zero_direct ''Dune'' 3 world0 =
      (extract_movie_info page_rating7 ?l, snd (http_get net_zero_direct ?l (sleep_uniform 2 4 ?w2)))" .
  have "truthy (extract_rating page_rating7)"
    by (simp add: extract_rating_def page_rating7_def empty_page_def truthy_def)
  then obtain info where i: "extract_movie_info page_rating7 ?l = Some info"
    using extract_movie_info_None_iff by fastforce
  then have r: "info_rating info = Some 7"
    using extract_movie_info_Some [OF i]
    by (simp add: extract_rating_def page_rating7_def empty_page_def)
  have "search_filmaffinity (internet ?e) (clean_title (titulo_de ''Dune'')) 3 (mundo estado0) =
      (Some info, snd (http_get net_zero_direct ?l (sleep_uniform 2 4 ?w2)))"
    using s i by (simp add: entorno_zero_direct_def entorno_down_def titulo_de_def estado0_def)
  from paso_found [OF this] r
  have "historial (paso ?e (titulo_de ''Dune'') estado0)
       (normalizar_titulo (clean_title (titulo_de ''Dune''))) =
     Some \<lparr>titulo = clean_title (titulo_de ''Dune''), nota = PyFloat 7,
           fecha = fecha_de ?e (nuevas_analizadas estado0), notificado = (MIN_RATING \<le> 7)\<rparr>"
    by (auto simp: agregar_al_historial_def)
  then show ?thesis using z n0
    by (simp add: MIN_RATING_def titulo_de_def entorno_zero_direct_def entorno_down_def fecha0_def)
qed

text \<open>
  Claim C10, amended. A page whose rating reads 0.0 makes \<open>extract_movie_info\<close> return
  \<open>None\<close>, as a page without any rating does, and on every path the lookup and the pipeline
  step do exactly what they do when every such page carries no rating at all. The title is
  recorded as not found (rating 0, \<open>notificado = False\<close>) whenever no page answered during the
  lookup carries a rating other than 0.0; and in particular when the zero-rated page is
  reached through the result card of a listing, or is itself the answer to the search and
  holds neither a card link nor a film link.
\<close>

theorem zero_rating_not_found:
  "(extract_rating soup = Some 0 \<longrightarrow>
      extract_movie_info soup u = None \<and>
      extract_movie_info (soup\<lparr>rating_elems := []\<rparr>) u = None \<and>
      forget_zero_page soup = soup\<lparr>rating_elems := []\<rparr>) \<and>
   search_filmaffinity (\<lambda>n. forget_zero (nw n)) title retries w =
     search_filmaffinity nw title retries w \<and>
   paso (e\<lparr>internet := (\<lambda>n. forget_zero (internet e n))\<rparr>) t s = paso e t s \<and>
   ((\<forall>n st p. internet e n = Response st p \<longrightarrow> extract_rating p = None \<or> extract_rating p = Some 0) \<longrightarrow>
      fst (search_filmaffinity (internet e) (clean_title t) 3 (mundo s)) = None \<and>
      historial (paso e t s) (normalizar_titulo (clean_title t)) =
        Some \<lparr>titulo = clean_title t, nota = PyInt 0,
              fecha = fecha_de e (nuevas_analizadas s), notificado = False\<rparr> \<and>
      good_movies (paso e t s) = good_movies s) \<and>
   (extract_rating soup = Some 0 \<and>
    internet e (gets (mundo s)) = Response st1 listing \<and> \<not> raise_for_status st1 \<and>
    card_href listing = Some (Some href) \<and> href \<noteq> [] \<and>
    internet e (Suc (gets (mundo s))) = Response st2 soup \<and> \<not> raise_for_status st2 \<longrightarrow>
      fst (search_filmaffinity (internet e) (clean_title t) 3 (mundo s)) = None \<and>
      historial (paso e t s) (normalizar_titulo (clean_title t)) =
        Some \<lparr>titulo = clean_title t, nota = PyInt 0,
              fecha = fecha_de e (nuevas_analizadas s), notificado = False\<rparr> \<and>
      good_movies (paso e t s) = good_movies s) \<and>
   (extract_rating soup = Some 0 \<and>
    internet e (gets (mundo s)) = Response st1 soup \<and> \<not> raise_for_status st1 \<and>
    card_href soup \<in> {None, Some None, Some (Some [])} \<and> film_href soup \<in> {None, Some []} \<longrightarrow>
      fst (search_filmaffinity (internet e) (clean_title t) 3 (mundo s)) = None \<and>
      historial (paso e t s) (normalizar_titulo (clean_title t)) =
        Some \<lparr>titulo = clean_title t, nota = PyInt 0,
              fecha = fecha_de e (nuevas_analizadas s), notificado = False\<rparr> \<and>
      good_movies (paso e t s) = good_movies s)"
proof -
  let ?u = "FILMAFFINITY_SEARCH_URL @ quote_plus (clean_title t)"
  let ?w2 = "snd (http_get (internet e) ?u (sleep_uniform 3 6 (mundo s)))"
  let ?R = "fst (search_filmaffinity (internet e) (clean_title t) 3 (mundo s)) = None \<and>
      historial (paso e t s) (normalizar_titulo (clean_title t)) =
        Some \<lparr>titulo = clean_title t, nota = PyInt 0,
              fecha = fecha_de e (nuevas_analizadas s), notificado = False\<rparr> \<and>
      good_movies (paso e t s) = good_movies s"
  have 1: "extract_movie_info soup u = None \<and>
      extract_movie_info (soup\<lparr>rating_elems := []\<rparr>) u = None \<and>
      forget_zero_page soup = soup\<lparr>rating_elems := []\<rparr>" if "extract_rating soup = Some 0"
    using that by (simp add: extract_movie_info_None_iff truthy_def extract_rating_def
        forget_zero_page_def)
  have 4: ?R
    if a: "\<forall>n st p. internet e n = Response st p \<longrightarrow> extract_rating p = None \<or> extract_rating p = Some 0"
  proof -
    have "\<forall>n st p. internet e n = Response st p \<longrightarrow> \<not> truthy (extract_rating p)"
      using a by (fastforce simp: truthy_def)
    from search_no_rating [OF this] have "fst (search_filmaffinity (internet e) (clean_title t) 3 (mundo s)) = None" .
    with paso_search_None [OF this] show ?thesis by simp
  qed
  have 5: ?R
    if h: "extract_rating soup = Some 0 \<and>
      internet e (gets (mundo s)) = Response st1 listing \<and> \<not> raise_for_status st1 \<and>
      card_href listing = Some (Some href) \<and> href \<noteq> [] \<and>
      internet e (Suc (gets (mundo s))) = Response st2 soup \<and> \<not> raise_for_status st2"
  proof -
    from h have z: "extract_rating soup = Some 0"
      and r1: "internet e (gets (mundo s)) = Response st1 listing" and s1: "\<not> raise_for_status st1"
      and c: "card_href listing = Some (Some href)" and hr: "href \<noteq> []"
      and r2: "internet e (Suc (gets (mundo s))) = Response st2 soup" and s2: "\<not> raise_for_status st2"
      by simp_all
    have g: "gets ?w2 = Suc (gets (mundo s))"
      by (simp add: http_get_def sleep_uniform_def)
    have "search_filmaffinity (internet e) (clean_title t) 3 (mundo s) =
        resolve (internet e) ?u listing ?w2"
      using r1 s1 by (intro search_first_ok) simp_all
    also have "\<dots> = get_filmaffinity_details (internet e) (absolute_url href) ?w2"
      using c hr by (simp add: resolve_def absolute_url_nonempty)
    also have "\<dots> = (extract_movie_info soup (absolute_url href),
        snd (http_get (internet e) (absolute_url href) (sleep_uniform 2 4 ?w2)))"
      using r2 s2 g by (intro details_ok) simp_all
    finally have "fst (search_filmaffinity (internet e) (clean_title t) 3 (mundo s)) = None"
      using z by (simp add: extract_movie_info_None_iff truthy_def)
    with paso_search_None [OF this] show ?thesis by simp
  qed
  have 6: ?R
    if h: "extract_rating soup = Some 0 \<and>
      internet e (gets (mundo s)) = Response st1 soup \<and> \<not> raise_for_status st1 \<and>
      card_href soup \<in> {None, Some None, Some (Some [])} \<and> film_href soup \<in> {None, Some []}"
  proof -
    from h have z: "extract_rating soup = Some 0"
      and r1: "internet e (gets (mundo s)) = Response st1 soup" and s1: "\<not> raise_for_status st1"
      and c: "card_href soup \<in> {None, Some None, Some (Some [])}"
      and f: "film_href soup \<in> {None, Some []}"
      by simp_all
    have a: "absolute_url [] = []" by (simp add: absolute_url_def)
    have "search_filmaffinity (internet e) (clean_title t) 3 (mundo s) =
        resolve (internet e) ?u soup ?w2"
      using r1 s1 by (intro search_first_ok) simp_all
    also have "\<dots> = (None, ?w2)"
      using z c f by (auto simp: resolve_def resolve_in_place_def resolve_first_link_def a truthy_def)
    finally have "fst (search_filmaffinity (internet e) (clean_title t) 3 (mundo s)) = None"
      by simp
    with paso_search_None [OF this] show ?thesis by simp
  qed
  from 1 4 5 6 show ?thesis
    using search_forget_zero [of nw title retries w] paso_forget_zero [of e t s] by blast
qed

text \<open>
  A listing whose card leads to a page rated 0.0, on a network that serves no other rating.
\<close>

theorem zero_rating_not_found_witness:
  "extract_rating page_rating0 = Some 0 \<and>
   extract_rating listing_page = None \<and>
   internet entorno_rating0 (gets (mundo estado0)) = Response 200 listing_page \<and>
   internet entorno_rating0 (Suc (gets (mundo estado0))) = Response 200 page_rating0 \<and>
   extract_movie_info page_rating0 ''u'' = None \<and>
   fst (search_filmaffinity (internet entorno_rating0) (clean_title (titulo_de ''Dune'')) 3
          (mundo estado0)) = None \<and>
   historial (paso entorno_rating0 (titulo_de ''Dune'') estado0)
       (normalizar_titulo (clean_title (titulo_de ''Dune''))) =
     Some \<lparr>titulo = ''Dune'', nota = PyInt 0, fecha = ''2024-01-01'', notificado = False\<rparr>"
proof -
  have z: "extract_rating page_rating0 = Some 0"
    by (simp add: extract_rating_def page_rating0_def empty_page_def)
  have l: "extract_rating listing_page = None"
    by (simp add: extract_rating_def listing_page_def empty_page_def)
  have a: "\<forall>n st p. internet entorno_rating0 n = Response st p \<longrightarrow>
      extract_rating p = None \<or> extract_rating p = Some 0"
    using z l by (auto simp: entorno_rating0_def entorno_down_def net_rating0_def split: if_splits)
  have h: "internet entorno_rating0 (gets (mundo estado0)) = Response 200 listing_page"
    "\<not> raise_for_status 200"
    "card_href listing_page = Some (Some ''/es/film123.html'')" "''/es/film123.html'' \<noteq> []"
    "internet entorno_rating0 (Suc (gets (mundo estado0))) = Response 200 page_rating0"
    by (simp_all add: entorno_rating0_def entorno_down_def net_rating0_def estado0_def world0_def
        raise_for_status_def listing_page_def empty_page_def)
  note n = zero_rating_not_found [where soup = page_rating0 and e = entorno_rating0
      and s = estado0 and ?st1.0 = 200 and listing = listing_page
      and href = "''/es/film123.html''" and ?st2.0 = 200 and t = "titulo_de ''Dune''" and u = "''u''"]
  from n z have e: "extract_movie_info page_rating0 ''u'' = None" by blast
  from n z h have "fst (search_filmaffinity (internet entorno_rating0) (clean_title (titulo_de ''Dune'')) 3
          (mundo estado0)) = None \<and>
      historial (paso entorno_rating0 (titulo_de ''Dune'') estado0)
       (normalizar_titulo (clean_title (titulo_de ''Dune''))) =
        Some \<lparr>titulo = clean_title (titulo_de ''Dune''), nota = PyInt 0,
              fecha = fecha_de entorno_rating0 (nuevas_analizadas estado0), notificado = False\<rparr>"
    by blast
  moreover from n a have "fst (search_filmaffinity (internet entorno_rating0)
      (clean_title (titulo_de ''Dune'')) 3 (mundo estado0)) = None"
    by blast
  ultimately show ?thesis using z l h e
    by (simp add: titulo_de_def entorno_rating0_def entorno_down_def fecha0_def estado0_def)
qed


section \<open>The pipeline: theorems\<close>

text \<open>
  Claim C8. When the lookup finds a result, the record written for the title carries the
  rating and \<open>notificado = (rating >= MIN_RATING)\<close>, the movie is appended to the list of
  movies to notify exactly when that flag is true, and \<open>MIN_RATING\<close> is 7.0: a rating equal
  to the threshold is notified, a rating below it is not.
\<close>

theorem notificado_threshold:
  "search_filmaffinity (internet e) (clean_title t) 3 (mundo s) = (Some info, w) \<Longrightarrow>
   \<exists>r. info_rating info = Some r \<and>
       historial (paso e t s) (normalizar_titulo (clean_title t)) =
         Some \<lparr>titulo = clean_title t, nota = PyFloat r,
               fecha = fecha_de e (nuevas_analizadas s), notificado = (r \<ge> MIN_RATING)\<rparr> \<and>
       good_movies (paso e t s) =
         (if r \<ge> MIN_RATING then good_movies s @ [(original_title t, info)] else good_movies s) \<and>
       MIN_RATING = 7"
proof -
  assume a: "search_filmaffinity (internet e) (clean_title t) 3 (mundo s) = (Some info, w)"
  from paso_found [OF a] obtain r where r: "info_rating info = Some r" and
    p: "paso e t s =
     s\<lparr>historial := agregar_al_historial (historial s) (clean_title t) (PyFloat r)
                       (MIN_RATING \<le> r) (fecha_de e (nuevas_analizadas s)),
       nuevas_analizadas := nuevas_analizadas s + 1,
       good_movies := (if MIN_RATING \<le> r then good_movies s @ [(original_title t, info)]
                       else good_movies s),
       mundo := w,
       disco := snd (guardar_historial (write_fault e (nuevas_analizadas s))
                  (agregar_al_historial (historial s) (clean_title t) (PyFloat r)
                       (MIN_RATING \<le> r) (fecha_de e (nuevas_analizadas s))) (disco s))\<rparr>"
    by blast
  show ?thesis
    by (rule exI [of _ r]) (simp add: r p agregar_al_historial_def MIN_RATING_def)
qed

text \<open>
  A page rated exactly 7.0 is found, and its record has \<open>notificado = True\<close>.
\<close>

theorem notificado_threshold_witness:
  "(\<exists>info w. search_filmaffinity (internet entorno_rating7) (clean_title (titulo_de ''Dune'')) 3
        (mundo estado0) = (Some info, w) \<and> info_rating info = Some 7) \<and>
   map_option notificado
     (historial (paso entorno_rating7 (titulo_de ''Dune'') estado0)
        (normalizar_titulo (clean_title (titulo_de ''Dune'')))) = Some True"
proof -
  have "truthy (extract_rating page_rating7)"
    by (simp add: extract_rating_def page_rating7_def empty_page_def truthy_def)
  then obtain info where i: "extract_movie_info page_rating7
      (FILMAFFINITY_SEARCH_URL @ quote_plus ''Dune'') = Some info"
    using extract_movie_info_None_iff by fastforce
  then have r: "info_rating info = Some 7"
    using extract_movie_info_Some [OF i]
    by (simp add: extract_rating_def page_rating7_def empty_page_def)
  obtain w where s: "search_filmaffinity (internet entorno_rating7)
      (clean_title (titulo_de ''Dune'')) 3 (mundo estado0) = (Some info, w)"
    using search_rating7 i
    by (simp add: entorno_rating7_def entorno_down_def titulo_de_def estado0_def)
  from notificado_threshold [OF s] r
  have "historial (paso entorno_rating7 (titulo_de ''Dune'') estado0)
          (normalizar_titulo (clean_title (titulo_de ''Dune''))) =
        Some \<lparr>titulo = clean_title (titulo_de ''Dune''), nota = PyFloat 7,
              fecha = fecha_de entorno_rating7 (nuevas_analizadas estado0),
              notificado = (7 \<ge> MIN_RATING)\<rparr>"
    by auto
  then show ?thesis using s r by (auto simp: MIN_RATING_def)
qed

text \<open>
  Claim C7, as stated, fails: for a title that is not found, \<open>main\<close> calls
  \<open>agregar_al_historial(historial, clean_title, 0, False)\<close>, so the record holds the number
  0 in \<open>nota\<close>, not \<open>null\<close>.
\<close>

theorem not_found_nota_counterexample:
  "map_option nota
     (historial (paso entorno_down (titulo_de ''Dune'') estado0)
        (normalizar_titulo (clean_title (titulo_de ''Dune'')))) = Some (PyInt 0) \<and>
   PyInt 0 \<noteq> PyNone"
proof -
  obtain w where "search_filmaffinity (internet entorno_down) (clean_title (titulo_de ''Dune'')) 3
      (mundo estado0) = (None, w)"
    using search_down [of "clean_title (titulo_de ''Dune'')" 3 "mundo estado0"]
    by (auto simp: entorno_down_def)
  from paso_not_found [OF this] show ?thesis
    by (simp add: agregar_al_historial_def)
qed

text \<open>
  Claim C7, amended. For a title whose lookup returns \<open>None\<close>, the pipeline records under the
  title's dedup key the title, the rating 0, the date and \<open>notificado = False\<close>; nothing is
  added to the movies to notify, and the title counts as analysed in the history of the
  run, whatever is processed after it. When the writes of the history file succeed, the file
  at the end of the run is a document that holds the title. Every later run that can open
  such a file, on any listing, leaves the title out of the titles it looks up and, its
  writes succeeding, leaves again such a file; on a listing that holds only that title it
  makes no request at all. (\<open>main\<close> ignores a failed write; after one the title may be looked
  up again.)
\<close>

theorem not_found_recorded:
  "search_filmaffinity (internet e) (clean_title t) 3 (mundo s) = (None, w) \<Longrightarrow>
   historial (paso e t s) (normalizar_titulo (clean_title t)) =
     Some \<lparr>titulo = clean_title t, nota = PyInt 0,
           fecha = fecha_de e (nuevas_analizadas s), notificado = False\<rparr> \<and>
   good_movies (paso e t s) = good_movies s \<and>
   ya_analizada (historial (procesar e ts (paso e t s))) (clean_title t) \<and>
   ((\<forall>n. write_fault e n = No_fault) \<longrightarrow>
      recordado (clean_title t) (disco (procesar e ts (paso e t s)))) \<and>
   (\<forall>d h e2 titles w2.
      d = Documento h \<and> recordado (clean_title t) d \<and> \<not> read_fault e2 \<and>
      (\<forall>n. write_fault e2 n = No_fault) \<longrightarrow>
      (\<exists>r2. main e2 titles w2 d = Inr r2 \<and>
         t \<notin> set (take MAX_PELICULAS_POR_EJECUCION
                    (filter (\<lambda>y. \<not> ya_analizada h (clean_title y)) titles)) \<and>
         final r2 = (if titles = []
                  then \<lparr>historial = h, good_movies = [], nuevas_analizadas = 0, mundo = w2, disco = d\<rparr>
                  else procesar e2 (take MAX_PELICULAS_POR_EJECUCION
                         (filter (\<lambda>y. \<not> ya_analizada h (clean_title y)) titles))
                       \<lparr>historial = h, good_movies = [], nuevas_analizadas = 0, mundo = w2, disco = d\<rparr>) \<and>
         recordado (clean_title t) (disco (final r2)))) \<and>
   (\<forall>d e2 w2.
      recordado (clean_title t) d \<and> \<not> read_fault e2 \<longrightarrow>
      (\<exists>r2. main e2 [t] w2 d = Inr r2 \<and> mundo (final r2) = w2 \<and> disco (final r2) = d \<and>
         nuevas_analizadas (final r2) = 0 \<and> saltadas r2 = 1 \<and> enviadas r2 = []))"
proof -
  assume a: "search_filmaffinity (internet e) (clean_title t) 3 (mundo s) = (None, w)"
  have k: "normalizar_titulo (clean_title t) \<in> dom (historial (procesar e ts (paso e t s)))"
    by (simp add: procesar_dom paso_dom)
  then have y: "ya_analizada (historial (procesar e ts (paso e t s))) (clean_title t)"
    by (simp add: ya_analizada_dom)
  have 1: "historial (paso e t s) (normalizar_titulo (clean_title t)) =
     Some \<lparr>titulo = clean_title t, nota = PyInt 0,
           fecha = fecha_de e (nuevas_analizadas s), notificado = False\<rparr> \<and>
   good_movies (paso e t s) = good_movies s"
    using paso_not_found [OF a] by (simp add: agregar_al_historial_def)
  have 2: "recordado (clean_title t) (disco (procesar e ts (paso e t s)))"
    if wf: "\<forall>n. write_fault e n = No_fault"
  proof -
    have "disco (paso e t s) = Documento (historial (paso e t s))"
      using wf by (intro paso_disco) simp
    then have "disco (procesar e ts (paso e t s)) = Documento (historial (procesar e ts (paso e t s)))"
      using wf by (intro procesar_disco) auto
    with y show ?thesis by (simp add: recordado_def)
  qed
  have 3: "\<exists>r2. main e2 titles w2 d = Inr r2 \<and>
         t \<notin> set (take MAX_PELICULAS_POR_EJECUCION
                    (filter (\<lambda>y. \<not> ya_analizada h (clean_title y)) titles)) \<and>
         final r2 = (if titles = []
                  then \<lparr>historial = h, good_movies = [], nuevas_analizadas = 0, mundo = w2, disco = d\<rparr>
                  else procesar e2 (take MAX_PELICULAS_POR_EJECUCION
                         (filter (\<lambda>y. \<not> ya_analizada h (clean_title y)) titles))
                       \<lparr>historial = h, good_movies = [], nuevas_analizadas = 0, mundo = w2, disco = d\<rparr>) \<and>
         recordado (clean_title t) (disco (final r2))"
    if "d = Documento h \<and> recordado (clean_title t) d \<and> \<not> read_fault e2 \<and>
      (\<forall>n. write_fault e2 n = No_fault)" for d h e2 titles w2
    using that by (intro main_recordado) (auto simp: recordado_def)
  have 4: "\<exists>r2. main e2 [t] w2 d = Inr r2 \<and> mundo (final r2) = w2 \<and> disco (final r2) = d \<and>
         nuevas_analizadas (final r2) = 0 \<and> saltadas r2 = 1 \<and> enviadas r2 = []"
    if r: "recordado (clean_title t) d \<and> \<not> read_fault e2" for d e2 w2
  proof -
    from r obtain h where h: "d = Documento h" "ya_analizada h (clean_title t)"
      by (auto simp: recordado_Documento)
    have l: "fst (cargar_historial (read_fault e2) d) = Inr h"
      using h r by (simp add: cargar_historial_Documento)
    from main_all_skipped [OF l, of "[t]" w2] h(2) show ?thesis by simp
  qed
  from 1 y 2 3 4 show ?thesis by blast
qed

text \<open>
  With the network down the lookup of Dune returns \<open>None\<close>; the file is written, and a second
  run on Dune alone makes no request.
\<close>

theorem not_found_recorded_witness:
  "(\<exists>w. search_filmaffinity (internet entorno_down) (clean_title (titulo_de ''Dune'')) 3
        (mundo estado0) = (None, w)) \<and>
   historial (paso entorno_down (titulo_de ''Dune'') estado0)
       (normalizar_titulo (clean_title (titulo_de ''Dune''))) =
     Some \<lparr>titulo = ''Dune'', nota = PyInt 0, fecha = ''2024-01-01'', notificado = False\<rparr> \<and>
   (\<forall>n. write_fault entorno_down n = No_fault) \<and> \<not> read_fault entorno_down \<and>
   recordado ''Dune'' (disco (procesar entorno_down [] (paso entorno_down (titulo_de ''Dune'') estado0))) \<and>
   (\<exists>r2. main entorno_down [titulo_de ''Dune''] world0
            (disco (procesar entorno_down [] (paso entorno_down (titulo_de ''Dune'') estado0))) = Inr r2 \<and>
         mundo (final r2) = world0 \<and> saltadas r2 = 1)"
proof -
  obtain w where a: "search_filmaffinity (internet entorno_down) (clean_title (titulo_de ''Dune'')) 3
      (mundo estado0) = (None, w)"
    using search_down [of "clean_title (titulo_de ''Dune'')" 3 "mundo estado0"]
    by (auto simp: entorno_down_def)
  have wf: "\<forall>n. write_fault entorno_down n = No_fault"
    by (simp add: entorno_down_def no_faults_def)
  have rf: "\<not> read_fault entorno_down"
    by (simp add: entorno_down_def)
  have c: "clean_title (titulo_de ''Dune'') = ''Dune''" by (simp add: titulo_de_def)
  note n = not_found_recorded [OF a, of "[]"]
  from n wf have r: "recordado ''Dune''
      (disco (procesar entorno_down [] (paso entorno_down (titulo_de ''Dune'') estado0)))"
    unfolding c by blast
  from n r rf have "\<exists>r2. main entorno_down [titulo_de ''Dune''] world0
            (disco (procesar entorno_down [] (paso entorno_down (titulo_de ''Dune'') estado0))) = Inr r2 \<and>
         mundo (final r2) = world0 \<and> saltadas r2 = 1"
    unfolding c by blast
  moreover from n have "historial (paso entorno_down (titulo_de ''Dune'') estado0)
       (normalizar_titulo (clean_title (titulo_de ''Dune''))) =
     Some \<lparr>titulo = ''Dune'', nota = PyInt 0, fecha = ''2024-01-01'', notificado = False\<rparr>"
    by (simp add: titulo_de_def entorno_down_def fecha0_def estado0_def)
  ultimately show ?thesis using a wf rf r by blast
qed




end
